theory Spec2Isabelle
  imports Complex_Main
begin

section \<open>JavaScript values used by the detection engine\<close>

text \<open>
  The engine is the class \<open>WalletTracker\<close> of \<open>src/index.js\<close>. Its numbers are JavaScript
  numbers: IEEE 754 double-precision values, and every arithmetic operation yields the
  double nearest to the exact result, a tie going to the double with the even mantissa.

  A double is a rational, so the model computes with rationals and rounds: \<open>dbl x\<close> is the
  double nearest to \<open>x\<close>. Between \<open>2^e\<close> and \<open>2^(e+1)\<close> the doubles are the multiples of
  \<open>2^(e-52)\<close>; below \<open>2^-1022\<close> they are the multiples of \<open>2^-1074\<close>. The largest double is
  just below \<open>2^1024\<close>. The engine's numbers are balances in lamports (below \<open>2^64\<close>), token
  amounts, thresholds typed by a subscriber and sums of spends; none comes near that bound,
  and the overflow to \<open>Infinity\<close> is not modelled.
\<close>

text \<open>The number of binary digits of a positive integer.\<close>

function bitLength :: "int \<Rightarrow> int" where
  "bitLength n = (if n \<le> 0 then 0 else 1 + bitLength (n div 2))"
  by pat_completeness auto
termination
  by (relation "measure nat") auto

declare bitLength.simps [simp del]

text \<open>\<open>2^k\<close> for an integer \<open>k\<close>.\<close>

definition pow2 :: "int \<Rightarrow> rat" where
  "pow2 k = (if k \<ge> 0 then 2 ^ nat k else 1 / 2 ^ nat (- k))"

text \<open>
  For positive integers \<open>p\<close> and \<open>q\<close>: the \<open>e\<close> with \<open>2^e \<le> p / q < 2^(e+1)\<close>. With \<open>k\<close> the
  difference of the digit counts, \<open>p / q\<close> lies between \<open>2^(k-1)\<close> and \<open>2^(k+1)\<close>.
\<close>

definition binaryExponent :: "int \<Rightarrow> int \<Rightarrow> int" where
  "binaryExponent p q =
     (let k = bitLength p - bitLength q
      in if (if k \<ge> 0 then q * 2 ^ nat k \<le> p else q \<le> p * 2 ^ nat (- k)) then k else k - 1)"

text \<open>
  The integer nearest to \<open>n / d\<close> for a positive \<open>d\<close>, the even one of two that are equally
  near.
\<close>

definition roundedQuotient :: "int \<Rightarrow> int \<Rightarrow> int" where
  "roundedQuotient n d =
     (let f = n div d; r = n mod d
      in if 2 * r < d then f else if 2 * r > d then f + 1
         else if even f then f else f + 1)"

text \<open>
  The nearest double of \<open>x = p / q\<close>: the multiple of the spacing \<open>2^s\<close> nearest to \<open>x\<close>, where
  \<open>s\<close> is 52 below the binary exponent of \<open>x\<close> and never below -1074.
\<close>

definition dbl :: "rat \<Rightarrow> rat" where
  "dbl x =
     (let (p, q) = quotient_of x
      in if p = 0 then 0
         else
           (let a = \<bar>p\<bar>;
                s = max (binaryExponent a q) (- 1022) - 52;
                n = (if s \<ge> 0 then roundedQuotient a (q * 2 ^ nat s)
                     else roundedQuotient (a * 2 ^ nat (- s)) q)
            in of_int (sgn p * n) * pow2 s))"

text \<open>
  A JavaScript number is a double or \<open>NaN\<close> (an index read \<open>xs[0]\<close> of an empty array is
  \<open>undefined\<close>, and \<open>undefined / 1e9\<close> is \<open>NaN\<close>). \<open>Num x\<close> stands for the double nearest to
  \<open>x\<close>, the way the program reads the decimal text of \<open>x\<close>: every operation reads its
  operands through \<open>dbl\<close> and rounds its result.
\<close>

datatype jsnum = Num rat | NaN

fun js_add :: "jsnum \<Rightarrow> jsnum \<Rightarrow> jsnum" where
  "js_add (Num a) (Num b) = Num (dbl (dbl a + dbl b))"
| "js_add _ _ = NaN"

fun js_sub :: "jsnum \<Rightarrow> jsnum \<Rightarrow> jsnum" where
  "js_sub (Num a) (Num b) = Num (dbl (dbl a - dbl b))"
| "js_sub _ _ = NaN"

text \<open>\<open>Math.max(0, x)\<close>: \<open>NaN\<close> when \<open>x\<close> is.\<close>

fun js_max0 :: "jsnum \<Rightarrow> jsnum" where
  "js_max0 (Num a) = Num (max 0 (dbl a))"
| "js_max0 NaN = NaN"

text \<open>\<open>a < b\<close> and \<open>a >= b\<close>: every comparison with \<open>NaN\<close> is false.\<close>

fun js_lt :: "jsnum \<Rightarrow> jsnum \<Rightarrow> bool" where
  "js_lt (Num a) (Num b) = (dbl a < dbl b)"
| "js_lt _ _ = False"

fun js_ge :: "jsnum \<Rightarrow> jsnum \<Rightarrow> bool" where
  "js_ge (Num a) (Num b) = (dbl a \<ge> dbl b)"
| "js_ge _ _ = False"

text \<open>\<open>x || 0\<close> on a number: \<open>NaN\<close> and \<open>0\<close> are falsy.\<close>

fun js_or0 :: "jsnum \<Rightarrow> jsnum" where
  "js_or0 (Num a) = Num (dbl a)"
| "js_or0 NaN = Num 0"

text \<open>
  The proofs below evaluate these operations at numerals in one step each, so their
  equations are not simplification rules.
\<close>

declare js_add.simps [simp del] js_sub.simps [simp del] js_max0.simps [simp del]
  js_lt.simps [simp del] js_ge.simps [simp del] js_or0.simps [simp del]

text \<open>
  \<open>x || 0\<close> on a value read from the chain's JSON, which is a number, \<open>null\<close> or
  \<open>undefined\<close>: the double of the number's text.
\<close>

fun or0 :: "rat option \<Rightarrow> rat" where
  "or0 None = 0"
| "or0 (Some a) = dbl a"

text \<open>
  \<open>preBalanceMap.get(mint) || 0\<close>: the map holds doubles, and a mint it does not hold
  gives \<open>undefined\<close>.
\<close>

fun storedOr0 :: "rat option \<Rightarrow> rat" where
  "storedOr0 None = 0"
| "storedOr0 (Some a) = a"

text \<open>\<open>xs[0]\<close>: \<open>undefined\<close> on the empty array.\<close>

fun index0 :: "'a list \<Rightarrow> 'a option" where
  "index0 [] = None"
| "index0 (x # _) = Some x"

text \<open>
  \<open>x / 1e9\<close> for a balance in lamports, or \<open>undefined\<close>. The balance is a JavaScript
  number itself: the double nearest to the integer of the chain.
\<close>

fun lamportsToSol :: "nat option \<Rightarrow> jsnum" where
  "lamportsToSol None = NaN"
| "lamportsToSol (Some n) = Num (dbl (dbl (of_nat n) / 1000000000))"

subsection \<open>The JavaScript \<open>Map\<close>\<close>

text \<open>
  A \<open>Map\<close> or plain object that the code only reads, writes and deletes by key is a
  partial function \<open>'k \<rightharpoonup> 'v\<close>. The \<open>buyers\<close> of an aggregation window are also counted
  (\<open>size\<close>), summed (\<open>values()\<close>) and listed in insertion order by the alert, so they are
  an association list: \<open>set\<close> on a key already present keeps the key's place.
\<close>

type_synonym ('k, 'v) jsmap = "('k \<times> 'v) list"

definition jsmap_get :: "('k, 'v) jsmap \<Rightarrow> 'k \<Rightarrow> 'v option" where
  "jsmap_get m k = map_of m k"

fun jsmap_set :: "('k, 'v) jsmap \<Rightarrow> 'k \<Rightarrow> 'v \<Rightarrow> ('k, 'v) jsmap" where
  "jsmap_set [] k v = [(k, v)]"
| "jsmap_set ((k', v') # m) k v =
     (if k' = k then (k, v) # m else (k', v') # jsmap_set m k v)"

subsection \<open>Errors\<close>

text \<open>
  What a call can throw, as far as the code tells the cases apart: \<open>callWithBackoff\<close>
  asks whether the error's text mentions a rate limit, and calling a member that is not a
  function is a \<open>TypeError\<close>.
\<close>

datatype js_error = RateLimited | OtherError | TypeError

section \<open>Subscriber settings and the tracker's state\<close>

text \<open>
  \<open>defaultSettings\<close> holds four objects: the \<open>Map\<close>s \<open>wallets\<close> and
  \<open>lastProcessedSignatures\<close>, the array \<open>userWallets\<close> and the plain object
  \<open>monitoringStartTimes\<close>. A settings object holds references to them, so the model has an
  explicit store: a settings record holds addresses, and the tracker maps an address to the
  object's current content.
\<close>

type_synonym ref = nat

record settings =
  solThreshold :: rat
  requiredWallets :: int
  wallets :: ref
  isPaused :: bool
  lastProcessedSignatures :: ref
  userWallets :: ref
  monitoringStartTimes :: ref

text \<open>An element of \<open>userWallets\<close>, as \<open>handleCreateWallet\<close> pushes it.\<close>

record user_wallet =
  uw_address :: string
  uw_privateKey :: string
  uw_label :: string
  uw_created :: int

text \<open>An aggregation window, an entry of \<open>recentTransactions\<close>.\<close>

record window =
  buyers :: "(string, jsnum) jsmap"
  timestamp :: int
  firstSeen :: int

text \<open>One call of \<open>sendAlert\<close>, with its arguments.\<close>

record alert =
  alert_chatId :: int
  alert_tokenAddress :: string
  alert_tokenName :: string
  alert_buyers :: "(string, jsnum) jsmap"
  alert_totalSolSpent :: jsnum

text \<open>
  The part of \<open>this\<close> that the poller, the classifier and the aggregator read and write.
  The keys \<open>`${chatId}:${tokenAddress}`\<close> and \<open>`${chatId}:${address}`\<close> are pairs: a chat
  id is a number, so the text before the first colon determines it. \<open>monitoringIntervals\<close>
  maps a key to its timer handle. \<open>liveTimers\<close> are the timers \<open>setInterval\<close> has started and
  \<open>clearInterval\<close> has not cancelled, each with the variables its callback has captured:
  the chat id, the address and \<open>monitoringStartTime\<close>.
\<close>

record tracker =
  userSettings :: "int \<rightharpoonup> settings"
  defaultSettings :: settings
  strMaps :: "ref \<Rightarrow> (string \<rightharpoonup> string)"
  timeObjs :: "ref \<Rightarrow> (string \<rightharpoonup> int)"
  arrays :: "ref \<Rightarrow> user_wallet list"
  nextRef :: ref
  recentTransactions :: "int \<times> string \<rightharpoonup> window"
  sentAlerts :: "alert list"
  monitoringIntervals :: "int \<times> string \<rightharpoonup> nat"
  liveTimers :: "nat \<rightharpoonup> int \<times> string \<times> int"
  nextTimer :: nat

text \<open>The state the constructor leaves: four fresh objects for \<open>defaultSettings\<close>.\<close>

definition newWalletTracker :: tracker where
  "newWalletTracker =
     \<lparr> userSettings = Map.empty,
       defaultSettings =
         \<lparr> solThreshold = 1 / 2, requiredWallets = 3, wallets = 0, isPaused = False,
           lastProcessedSignatures = 1, userWallets = 2, monitoringStartTimes = 3 \<rparr>,
       strMaps = (\<lambda>_. Map.empty), timeObjs = (\<lambda>_. Map.empty), arrays = (\<lambda>_. []),
       nextRef = 4,
       recentTransactions = Map.empty, sentAlerts = [],
       monitoringIntervals = Map.empty, liveTimers = Map.empty, nextTimer = 0 \<rparr>"

text \<open>
  \<open>getUserSettings\<close>: on the first call for a chat id, a spread copy of \<open>defaultSettings\<close>
  with a new \<open>Map\<close> for \<open>wallets\<close>; the spread copies the other three references.
\<close>

definition getUserSettings :: "int \<Rightarrow> tracker \<Rightarrow> settings \<times> tracker" where
  "getUserSettings chatId t =
     (case userSettings t chatId of
        Some s \<Rightarrow> (s, t)
      | None \<Rightarrow>
          (let r = nextRef t;
               s = (defaultSettings t)\<lparr>wallets := r\<rparr>
           in (s, t\<lparr> userSettings := (userSettings t)(chatId \<mapsto> s),
                     strMaps := (strMaps t)(r := Map.empty),
                     nextRef := Suc r \<rparr>)))"

text \<open>
  \<open>setThreshold\<close> and \<open>setWalletCount\<close>. The argument is the number in the text that
  \<open>parseFloat\<close> or \<open>parseInt\<close> reads, \<open>None\<close> when the result is \<open>NaN\<close>; \<open>parseFloat\<close>
  yields its double.
\<close>

definition setThreshold :: "int \<Rightarrow> rat option \<Rightarrow> tracker \<Rightarrow> tracker" where
  "setThreshold chatId threshold t =
     (let (settings, t1) = getUserSettings chatId t
      in case threshold of
           None \<Rightarrow> t1
         | Some newThreshold \<Rightarrow>
             if dbl newThreshold \<le> 0 then t1
             else t1\<lparr>userSettings :=
                      (userSettings t1)
                        (chatId \<mapsto> settings\<lparr>solThreshold := dbl newThreshold\<rparr>)\<rparr>)"

definition setWalletCount :: "int \<Rightarrow> int option \<Rightarrow> tracker \<Rightarrow> tracker" where
  "setWalletCount chatId count t =
     (let (settings, t1) = getUserSettings chatId t
      in case count of
           None \<Rightarrow> t1
         | Some newCount \<Rightarrow>
             if newCount \<le> 0 then t1
             else t1\<lparr>userSettings :=
                      (userSettings t1)(chatId \<mapsto> settings\<lparr>requiredWallets := newCount\<rparr>)\<rparr>)"

section \<open>The transaction classifier\<close>

record token_balance =
  owner :: "string option"
  mint :: string
  uiAmount :: "rat option"

record tx_meta =
  preBalances :: "nat list option"
  postBalances :: "nat list option"
  preTokenBalances :: "token_balance list option"
  postTokenBalances :: "token_balance list option"

record tx =
  meta :: "tx_meta option"

record token_info =
  tokenAddress :: string
  tokenName :: string
  tokenAmount :: rat
  solAmount :: jsnum

text \<open>Step 1 of \<open>extractTokenInfoFromTx\<close>: the net SOL spent, 0 when a balance array is missing.\<close>

definition netSolSpent :: "tx_meta \<Rightarrow> jsnum" where
  "netSolSpent m =
     (case (preBalances m, postBalances m) of
        (Some pre, Some post) \<Rightarrow>
          js_max0 (js_sub (lamportsToSol (index0 pre)) (lamportsToSol (index0 post)))
      | _ \<Rightarrow> Num 0)"

text \<open>Step 3: the wallet's token balances before the transaction, by mint.\<close>

fun buildPreBalanceMap ::
  "string \<Rightarrow> token_balance list \<Rightarrow> (string \<rightharpoonup> rat) \<Rightarrow> (string \<rightharpoonup> rat)" where
  "buildPreBalanceMap walletAddress [] preBalanceMap = preBalanceMap"
| "buildPreBalanceMap walletAddress (bal # bals) preBalanceMap =
     (if owner bal = Some walletAddress
      then buildPreBalanceMap walletAddress bals
             (preBalanceMap(mint bal \<mapsto> or0 (uiAmount bal)))
      else buildPreBalanceMap walletAddress bals preBalanceMap)"

definition preBalanceMapOf :: "string \<Rightarrow> tx_meta \<Rightarrow> (string \<rightharpoonup> rat)" where
  "preBalanceMapOf walletAddress m =
     (case preTokenBalances m of
        None \<Rightarrow> Map.empty
      | Some pre \<Rightarrow> buildPreBalanceMap walletAddress pre Map.empty)"

text \<open>
  Step 4: the loop over \<open>postTokenBalances\<close>, with the loop variables \<open>tokenAddress\<close>
  (\<open>null\<close> at first) and \<open>tokenAmount\<close>.
\<close>

fun largestIncrease ::
  "string \<Rightarrow> (string \<rightharpoonup> rat) \<Rightarrow> token_balance list \<Rightarrow> string option \<times> rat
     \<Rightarrow> string option \<times> rat" where
  "largestIncrease walletAddress preBalanceMap [] acc = acc"
| "largestIncrease walletAddress preBalanceMap (bal # bals) (tokenAddr, tokenAmt) =
     (if owner bal = Some walletAddress
      then
        (let preAmount = storedOr0 (preBalanceMap (mint bal));
             postAmount = or0 (uiAmount bal);
             diff = dbl (postAmount - preAmount)
         in if diff > tokenAmt
            then largestIncrease walletAddress preBalanceMap bals (Some (mint bal), diff)
            else largestIncrease walletAddress preBalanceMap bals (tokenAddr, tokenAmt))
      else largestIncrease walletAddress preBalanceMap bals (tokenAddr, tokenAmt))"

definition selectToken :: "string \<Rightarrow> tx_meta \<Rightarrow> string option \<times> rat" where
  "selectToken walletAddress m =
     (case postTokenBalances m of
        None \<Rightarrow> (None, 0)
      | Some post \<Rightarrow>
          largestIncrease walletAddress (preBalanceMapOf walletAddress m) post (None, 0))"

text \<open>
  For the statement of what the loop selects: the wallet-owned entries of
  \<open>postTokenBalances\<close>, in the list's order, each with its mint and its increase
  \<open>postAmount - preAmount\<close> as the program computes it, a double.
\<close>

definition walletIncreases ::
  "string \<Rightarrow> (string \<rightharpoonup> rat) \<Rightarrow> token_balance list \<Rightarrow> (string \<times> rat) list" where
  "walletIncreases walletAddress preBalanceMap post =
     map (\<lambda>bal. (mint bal,
                 dbl (or0 (uiAmount bal) - storedOr0 (preBalanceMap (mint bal)))))
       (filter (\<lambda>bal. owner bal = Some walletAddress) post)"

definition increasesOf :: "string \<Rightarrow> tx_meta \<Rightarrow> (string \<times> rat) list" where
  "increasesOf walletAddress m =
     (case postTokenBalances m of
        None \<Rightarrow> []
      | Some post \<Rightarrow> walletIncreases walletAddress (preBalanceMapOf walletAddress m) post)"

text \<open>Step 5: \<open>!tokenAddress\<close> holds of \<open>null\<close> and of the empty string.\<close>

fun orUnknown :: "string option \<Rightarrow> string" where
  "orUnknown None = ''unknown''"
| "orUnknown (Some a) = (if a = [] then ''unknown'' else a)"

text \<open>
  Step 7: the three enrichment lookups are calls to a remote service. \<open>enrich a\<close> is
  \<open>None\<close> when one of them throws (the name stays \<open>'Unknown'\<close>) and the metadata's symbol
  otherwise.
\<close>

definition enrichedName :: "(string \<Rightarrow> string option) \<Rightarrow> string \<Rightarrow> string" where
  "enrichedName enrich a =
     (if a \<noteq> ''unknown''
      then (case enrich a of
              None \<Rightarrow> ''Unknown''
            | Some symbol \<Rightarrow> (if symbol = [] then ''Unknown'' else symbol))
      else ''Unknown'')"

definition extractTokenInfoFromTx ::
  "(string \<Rightarrow> string option) \<Rightarrow> tx option \<Rightarrow> int \<Rightarrow> string \<Rightarrow> tracker
     \<Rightarrow> token_info option \<times> tracker" where
  "extractTokenInfoFromTx enrich txo chatId walletAddress t =
     (case txo of
        None \<Rightarrow> (None, t)
      | Some tx \<Rightarrow>
         (case meta tx of
            None \<Rightarrow> (None, t)
          | Some m \<Rightarrow>
             (let (settings, t1) = getUserSettings chatId t;
                  solAmt = netSolSpent m
              in if js_lt solAmt (Num (solThreshold settings)) then (None, t1)
                 else
                   (let (tokenAddr, tokenAmt) = selectToken walletAddress m;
                        a = orUnknown tokenAddr
                    in (Some \<lparr> tokenAddress = a, tokenName = enrichedName enrich a,
                               tokenAmount = tokenAmt, solAmount = solAmt \<rparr>, t1)))))"

section \<open>The signal aggregator\<close>

text \<open>
  \<open>processTransaction\<close> reads the clock when it creates a window and again before the
  cleanup loop; \<open>sendAlert\<close>, which waits for the network, may run in between. The two
  readings are the parameters \<open>now0\<close> and \<open>now1\<close>.
\<close>

text \<open>The window of a key, created when the key is new.\<close>

definition openWindow :: "int \<Rightarrow> (int \<times> string \<rightharpoonup> window) \<Rightarrow> int \<times> string \<Rightarrow> window" where
  "openWindow now rt key =
     (case rt key of
        Some txData \<Rightarrow> txData
      | None \<Rightarrow> \<lparr> buyers = [], timestamp = now, firstSeen = now \<rparr>)"

text \<open>\<open>previousAmount = txData.buyers.get(walletAddress) || 0\<close> and the \<open>set\<close> after it.\<close>

definition previousAmount :: "window \<Rightarrow> string \<Rightarrow> jsnum" where
  "previousAmount txData walletAddress =
     (case jsmap_get (buyers txData) walletAddress of None \<Rightarrow> Num 0 | Some a \<Rightarrow> js_or0 a)"

definition addBuyer :: "window \<Rightarrow> string \<Rightarrow> jsnum \<Rightarrow> window" where
  "addBuyer txData walletAddress solAmt =
     txData\<lparr>buyers :=
       jsmap_set (buyers txData) walletAddress
         (js_add (previousAmount txData walletAddress) solAmt)\<rparr>"

definition totalSolSpentOnToken :: "window \<Rightarrow> jsnum" where
  "totalSolSpentOnToken txData = foldl js_add (Num 0) (map snd (buyers txData))"

definition alertConditions :: "settings \<Rightarrow> window \<Rightarrow> bool" where
  "alertConditions s txData =
     (int (length (buyers txData)) \<ge> requiredWallets s \<and>
      js_ge (totalSolSpentOnToken txData) (Num (solThreshold s)))"

text \<open>
  \<open>sendAlert\<close> formats a message and sends it, and catches every error of its own. The
  model records the call.
\<close>

definition sendAlert ::
  "int \<Rightarrow> string \<Rightarrow> string \<Rightarrow> (string, jsnum) jsmap \<Rightarrow> jsnum \<Rightarrow> tracker \<Rightarrow> tracker" where
  "sendAlert chatId tokenAddr tokenNm buyersMap totalSpent t =
     t\<lparr>sentAlerts := sentAlerts t @
         [\<lparr> alert_chatId = chatId, alert_tokenAddress = tokenAddr, alert_tokenName = tokenNm,
            alert_buyers = buyersMap, alert_totalSolSpent = totalSpent \<rparr>]\<rparr>"

text \<open>The cleanup loop at the end of \<open>processTransaction\<close>.\<close>

definition cleanupOldEntries ::
  "int \<Rightarrow> (int \<times> string \<rightharpoonup> window) \<Rightarrow> (int \<times> string \<rightharpoonup> window)" where
  "cleanupOldEntries now rt =
     (\<lambda>existingKey.
        case rt existingKey of
          None \<Rightarrow> None
        | Some d \<Rightarrow> if now - timestamp d > 3600000 then None else Some d)"

definition processTransaction ::
  "(string \<Rightarrow> string option) \<Rightarrow> string \<Rightarrow> int \<Rightarrow> string \<Rightarrow> tx option \<Rightarrow> token_info option
     \<Rightarrow> int \<Rightarrow> int \<Rightarrow> tracker \<Rightarrow> tracker" where
  "processTransaction enrich sigText chatId walletAddress txo tokenInfo now0 now1 t =
     (let (found, t0) =
            (case tokenInfo of
               Some i \<Rightarrow> (Some i, t)
             | None \<Rightarrow> extractTokenInfoFromTx enrich txo chatId walletAddress t)
      in case found of
           None \<Rightarrow> t0
         | Some info \<Rightarrow>
            (let (settings, t1) = getUserSettings chatId t0;
                 key = (chatId, tokenAddress info);
                 txData = addBuyer (openWindow now0 (recentTransactions t1) key)
                            walletAddress (solAmount info);
                 t2 = t1\<lparr>recentTransactions := (recentTransactions t1)(key \<mapsto> txData)\<rparr>;
                 t3 = (if alertConditions settings txData
                       then (let t' = sendAlert chatId (tokenAddress info) (tokenName info)
                                        (buyers txData) (totalSolSpentOnToken txData) t2
                             in t'\<lparr>recentTransactions := (recentTransactions t')(key := None)\<rparr>)
                       else t2)
             in t3\<lparr>recentTransactions := cleanupOldEntries now1 (recentTransactions t3)\<rparr>))"

text \<open>
  For the statements about signals: the total that the program computes for a window whose
  buyers have made one buy each (\<open>0 + spent\<close> is stored for each buyer, and the stored
  values are added from 0 in the buyers' order), the window of a signal's key once the
  signal has been added, and a run of \<open>processTransaction\<close> over signals that are handed to
  it one after the other, each with its wallet and its two clock readings. The signature
  and the transaction body are not read when the token info is passed in.
\<close>

definition pooledSpend :: "rat list \<Rightarrow> jsnum" where
  "pooledSpend spends =
     foldl js_add (Num 0) (map (\<lambda>spent. js_add (Num 0) (Num spent)) spends)"

definition signalWindow :: "tracker \<Rightarrow> int \<Rightarrow> string \<Rightarrow> token_info \<Rightarrow> int \<Rightarrow> window" where
  "signalWindow t chatId walletAddress info now0 =
     addBuyer (openWindow now0 (recentTransactions t) (chatId, tokenAddress info))
       walletAddress (solAmount info)"

fun ingestSignals ::
  "(string \<Rightarrow> string option) \<Rightarrow> int \<Rightarrow> (string \<times> token_info \<times> int \<times> int) list \<Rightarrow> tracker
     \<Rightarrow> tracker" where
  "ingestSignals enrich chatId [] t = t"
| "ingestSignals enrich chatId ((walletAddress, info, now0, now1) # signals) t =
     ingestSignals enrich chatId signals
       (processTransaction enrich [] chatId walletAddress None (Some info) now0 now1 t)"

section \<open>The wallet poller\<close>

record sig_info =
  signature :: string
  blockTime :: "int option"

text \<open>
  What a tick does, in order, for the properties that speak of order: the cursor moved,
  a transaction body fetched, a transaction handed to \<open>processTransaction\<close>.
\<close>

datatype event = CursorAdvanced string string | BodyFetched string | SignalEmitted string

text \<open>\<open>sig.blockTime && sig.blockTime < monitoringStartTime\<close>.\<close>

definition tooOld :: "sig_info \<Rightarrow> int \<Rightarrow> bool" where
  "tooOld sg monitoringStartTime =
     (case blockTime sg of None \<Rightarrow> False | Some b \<Rightarrow> b \<noteq> 0 \<and> b < monitoringStartTime)"

text \<open>The test before \<open>processTransaction\<close> in the tick.\<close>

definition isBuy :: "token_info option \<Rightarrow> bool" where
  "isBuy tokenInfo =
     (case tokenInfo of
        None \<Rightarrow> False
      | Some i \<Rightarrow> tokenAddress i \<noteq> ''unknown'' \<and> tokenAmount i > 0)"

text \<open>
  The loop over the new signatures, here in the order the loop visits them (from the last
  index down). \<open>getTransaction\<close> is the chain's answer for a signature: an error (caught
  per transaction), \<open>null\<close> or a body. \<open>clock\<close> gives the two clock readings of
  \<open>processTransaction\<close> for a signature.
\<close>

fun processNewSignatures ::
  "(string \<Rightarrow> string option) \<Rightarrow> (string \<Rightarrow> js_error + tx option) \<Rightarrow> (string \<Rightarrow> int \<times> int)
     \<Rightarrow> int \<Rightarrow> string \<Rightarrow> int \<Rightarrow> sig_info list \<Rightarrow> tracker \<Rightarrow> event list \<times> tracker" where
  "processNewSignatures enrich getTransaction clock chatId address monitoringStartTime [] t =
     ([], t)"
| "processNewSignatures enrich getTransaction clock chatId address monitoringStartTime
     (sg # sgs) t =
     (if tooOld sg monitoringStartTime
      then processNewSignatures enrich getTransaction clock chatId address
             monitoringStartTime sgs t
      else
        (case getTransaction (signature sg) of
           Inl e \<Rightarrow>
             (let (evs, t') = processNewSignatures enrich getTransaction clock chatId address
                                monitoringStartTime sgs t
              in (BodyFetched (signature sg) # evs, t'))
         | Inr None \<Rightarrow>
             (let (evs, t') = processNewSignatures enrich getTransaction clock chatId address
                                monitoringStartTime sgs t
              in (BodyFetched (signature sg) # evs, t'))
         | Inr (Some body) \<Rightarrow>
             (let (tokenInfo, t1) =
                    extractTokenInfoFromTx enrich (Some body) chatId address t
              in if isBuy tokenInfo
                 then
                   (let t2 = processTransaction enrich (signature sg) chatId address
                               (Some body) tokenInfo
                               (fst (clock (signature sg))) (snd (clock (signature sg))) t1;
                        (evs, t') = processNewSignatures enrich getTransaction clock chatId
                                      address monitoringStartTime sgs t2
                    in (BodyFetched (signature sg) # SignalEmitted (signature sg) # evs, t'))
                 else
                   (let (evs, t') = processNewSignatures enrich getTransaction clock chatId
                                      address monitoringStartTime sgs t1
                    in (BodyFetched (signature sg) # evs, t')))))"

text \<open>
  One run of the interval callback of \<open>startMonitoringWallet\<close>. \<open>settings\<close> is the object
  the callback has captured: the settings object of the chat id, which
  \<open>startMonitoringWallet\<close> has created before it starts the timer and which is never removed.
  \<open>fetched\<close> is the answer to \<open>getSignaturesForAddress\<close> (newest first), or the error it
  throws, which the callback catches.
\<close>

definition monitoringTick ::
  "(string \<Rightarrow> string option) \<Rightarrow> (js_error + sig_info list) \<Rightarrow> (string \<Rightarrow> js_error + tx option)
     \<Rightarrow> (string \<Rightarrow> int \<times> int) \<Rightarrow> int \<Rightarrow> string \<Rightarrow> int \<Rightarrow> tracker \<Rightarrow> event list \<times> tracker" where
  "monitoringTick enrich fetched getTransaction clock chatId address monitoringStartTime t =
     (case userSettings t chatId of
        None \<Rightarrow> ([], t)
      | Some settings \<Rightarrow>
          if isPaused settings then ([], t)
          else
            (case fetched of
               Inl e \<Rightarrow> ([], t)
             | Inr newSigs \<Rightarrow>
                 if newSigs = [] then ([], t)
                 else
                   (let cursors = lastProcessedSignatures settings;
                        lastProcessedSig = strMaps t cursors address;
                        newSignatures =
                          takeWhile (\<lambda>sg. Some (signature sg) \<noteq> lastProcessedSig) newSigs
                    in case newSignatures of
                         [] \<Rightarrow> ([], t)
                       | newest # _ \<Rightarrow>
                           (let t1 = t\<lparr>strMaps := (strMaps t)
                                       (cursors := (strMaps t cursors)
                                          (address \<mapsto> signature newest))\<rparr>;
                                (evs, t2) =
                                  processNewSignatures enrich getTransaction clock chatId
                                    address monitoringStartTime (rev newSignatures) t1
                            in (CursorAdvanced address (signature newest) # evs, t2)))))"

text \<open>\<open>clearInterval\<close> of the key's timer and the key's removal, when the key has one.\<close>

definition stopMonitoring :: "int \<times> string \<Rightarrow> tracker \<Rightarrow> tracker" where
  "stopMonitoring key t =
     (case monitoringIntervals t key of
        None \<Rightarrow> t
      | Some handle \<Rightarrow>
          t\<lparr> liveTimers := (liveTimers t)(handle := None),
             monitoringIntervals := (monitoringIntervals t)(key := None) \<rparr>)"

text \<open>
  \<open>startMonitoringWallet\<close>. \<open>sendOk\<close>: the first message to the chat is sent (when it
  throws, the outer \<open>catch\<close> ends the call). \<open>validKey\<close>: \<open>new PublicKey(address)\<close>
  returns. \<open>now\<close>: the clock, in milliseconds. \<open>initialSigs\<close>: the answer to the first
  \<open>getSignaturesForAddress\<close>, or its error, which is caught. The assignments
  \<open>settings.monitoringStartTimes = settings.monitoringStartTimes || {}\<close> and
  \<open>settings.lastProcessedSignatures = settings.lastProcessedSignatures || new Map()\<close> keep
  the object that is there: an object is truthy.
\<close>

definition startMonitoringWallet ::
  "bool \<Rightarrow> bool \<Rightarrow> int \<Rightarrow> (js_error + sig_info list) \<Rightarrow> string \<Rightarrow> int \<Rightarrow> tracker \<Rightarrow> tracker" where
  "startMonitoringWallet sendOk validKey now initialSigs address chatId t =
     (let t1 = stopMonitoring (chatId, address) t;
          (settings, t2) = getUserSettings chatId t1
      in if \<not> sendOk then t2
         else
           (let monitoringStartTime = now div 1000;
                starts = monitoringStartTimes settings;
                t3 = t2\<lparr>timeObjs := (timeObjs t2)
                          (starts := (timeObjs t2 starts)(address \<mapsto> monitoringStartTime))\<rparr>
            in if \<not> validKey then t3
               else
                 (let cursors = lastProcessedSignatures settings;
                      t4 = (case initialSigs of
                              Inr (first # _) \<Rightarrow>
                                t3\<lparr>strMaps := (strMaps t3)
                                     (cursors := (strMaps t3 cursors)
                                        (address \<mapsto> signature first))\<rparr>
                            | _ \<Rightarrow> t3);
                      interval = nextTimer t4
                  in t4\<lparr> liveTimers := (liveTimers t4)
                            (interval \<mapsto> (chatId, address, monitoringStartTime)),
                          nextTimer := Suc interval,
                          monitoringIntervals :=
                            (monitoringIntervals t4)((chatId, address) \<mapsto> interval) \<rparr>)))"

text \<open>
  \<open>deleteWallet\<close>. The messages it sends do not change the state, and an error of theirs
  is caught after the deletions.
\<close>

definition deleteWallet :: "int \<Rightarrow> string \<Rightarrow> tracker \<Rightarrow> tracker" where
  "deleteWallet chatId address t =
     (let (settings, t1) = getUserSettings chatId t;
          t2 = stopMonitoring (chatId, address) t1;
          t3 = t2\<lparr>strMaps := (strMaps t2)
                    (wallets settings := (strMaps t2 (wallets settings))(address := None))\<rparr>
      in t3\<lparr>strMaps := (strMaps t3)
               (lastProcessedSignatures settings :=
                  (strMaps t3 (lastProcessedSignatures settings))(address := None))\<rparr>)"

text \<open>
  \<open>processWalletAddition\<close>, for one line whose address is a valid key: the nickname is
  stored, then monitoring starts.
\<close>

definition addWallet ::
  "bool \<Rightarrow> int \<Rightarrow> (js_error + sig_info list) \<Rightarrow> string \<Rightarrow> string \<Rightarrow> int \<Rightarrow> tracker \<Rightarrow> tracker" where
  "addWallet sendOk now initialSigs address nickname chatId t =
     (let (settings, t1) = getUserSettings chatId t;
          t2 = t1\<lparr>strMaps := (strMaps t1)
                    (wallets settings := (strMaps t1 (wallets settings))(address \<mapsto> nickname))\<rparr>
      in startMonitoringWallet sendOk True now initialSigs address chatId t2)"

text \<open>
  \<open>handleCreateWallet\<close>, up to the \<open>push\<close>: the key pair is generated outside. The test
  \<open>!userSettings.userWallets\<close> before the \<open>push\<close> never holds, since the array of
  \<open>defaultSettings\<close> is there. The label is the text \<open>Wallet n\<close>; the model keeps \<open>n\<close>'s
  decimal digits.
\<close>

function showNat :: "nat \<Rightarrow> string" where
  "showNat n =
     (if n < 10 then [''0123456789'' ! n]
      else showNat (n div 10) @ [''0123456789'' ! (n mod 10)])"
  by pat_completeness auto
termination
  by (relation "measure id") auto

definition handleCreateWallet :: "string \<Rightarrow> string \<Rightarrow> int \<Rightarrow> int \<Rightarrow> tracker \<Rightarrow> tracker" where
  "handleCreateWallet publicKey privateKey now chatId t =
     (let (settings, t1) = getUserSettings chatId t;
          mine = arrays t1 (userWallets settings);
          walletName = ''Wallet '' @ showNat (length mine + 1)
      in t1\<lparr>arrays := (arrays t1)
               (userWallets settings := mine @
                  [\<lparr> uw_address = publicKey, uw_privateKey = privateKey,
                     uw_label = walletName, uw_created = now \<rparr>])\<rparr>)"

section \<open>The endpoint pool and the retrying caller\<close>

text \<open>
  \<open>connection\<close> is the endpoint the current \<open>Connection\<close> object was built for. The
  constructor refuses an empty \<open>rpcEndpoints\<close>.
\<close>

record rpc =
  rpcEndpoints :: "string list"
  currentRpcIndex :: nat
  connection :: string
  rateLimitCount :: nat
  totalRequests :: nat
  totalRotations :: nat
  lastRotation :: int

text \<open>
  \<open>rotateRpcEndpoint\<close>. \<open>connect url\<close>: \<open>new Connection(url)\<close> returns; when it throws,
  the \<open>catch\<close> keeps the old connection and the counters, with the index already advanced.
  With an empty pool the index would be \<open>NaN\<close> and \<open>newEndpoint.split\<close> a \<open>TypeError\<close>.
\<close>

definition rotateRpcEndpoint :: "(string \<Rightarrow> bool) \<Rightarrow> int \<Rightarrow> rpc \<Rightarrow> js_error + rpc" where
  "rotateRpcEndpoint connect now r =
     (if rpcEndpoints r = [] then Inl TypeError
      else
        (let i = (currentRpcIndex r + 1) mod length (rpcEndpoints r);
             newEndpoint = rpcEndpoints r ! i;
             r1 = r\<lparr>currentRpcIndex := i\<rparr>
         in if connect newEndpoint
            then Inr (r1\<lparr> connection := newEndpoint, rateLimitCount := 0, lastRotation := now,
                          totalRotations := totalRotations r1 + 1 \<rparr>)
            else Inr r1))"

text \<open>
  The \<open>catch\<close> branch of \<open>callWithBackoff\<close> for a rate-limit error that is retried: the
  strike is counted, and a count of 3 or more rotates the endpoint.
\<close>

definition afterRateLimit :: "(string \<Rightarrow> bool) \<Rightarrow> int \<Rightarrow> rpc \<Rightarrow> js_error + rpc" where
  "afterRateLimit connect now r =
     (let r2 = r\<lparr>rateLimitCount := rateLimitCount r + 1\<rparr>
      in if rateLimitCount r2 \<ge> 3 then rotateRpcEndpoint connect now r2 else Inr r2)"

text \<open>
  \<open>callWithBackoff\<close>. \<open>api k\<close> is what \<open>apiFunction\<close> does at the attempt made with
  \<open>retries = k\<close>: it throws or returns a value. \<open>clock k\<close> is the clock after the delay of
  that attempt. The result is what the call throws or returns, \<open>None\<close> for the
  \<open>undefined\<close> of a loop that ends without a \<open>return\<close>.
\<close>

function callWithBackoffFrom ::
  "(string \<Rightarrow> bool) \<Rightarrow> (nat \<Rightarrow> int) \<Rightarrow> (nat \<Rightarrow> js_error + 'a) \<Rightarrow> int \<Rightarrow> nat \<Rightarrow> rpc
     \<Rightarrow> (js_error + 'a option) \<times> rpc" where
  "callWithBackoffFrom connect clock api maxRetries retries r =
     (if int retries \<le> maxRetries
      then
        (let r1 = r\<lparr>totalRequests := totalRequests r + 1\<rparr>
         in case api retries of
              Inr v \<Rightarrow> (Inr (Some v), r1)
            | Inl e \<Rightarrow>
                if e = RateLimited \<and> int retries < maxRetries
                then
                  (case afterRateLimit connect (clock retries) r1 of
                     Inl e' \<Rightarrow> (Inl e', r1\<lparr>rateLimitCount := rateLimitCount r1 + 1\<rparr>)
                   | Inr r3 \<Rightarrow>
                       callWithBackoffFrom connect clock api maxRetries (retries + 1) r3)
                else (Inl e, r1))
      else (Inr None, r))"
  by pat_completeness auto
termination
  by (relation "measure (\<lambda>(connect, clock, api, maxRetries, retries, r).
                   nat (maxRetries + 1 - int retries))") auto

declare callWithBackoffFrom.simps [simp del]

definition callWithBackoff ::
  "(string \<Rightarrow> bool) \<Rightarrow> (nat \<Rightarrow> int) \<Rightarrow> (nat \<Rightarrow> js_error + 'a) \<Rightarrow> int \<Rightarrow> rpc
     \<Rightarrow> (js_error + 'a option) \<times> rpc" where
  "callWithBackoff connect clock api maxRetries r =
     callWithBackoffFrom connect clock api maxRetries 0 r"

section \<open>The webhook\<close>

text \<open>
  The handler of \<open>POST /webhook\<close> calls \<open>this.handleTransaction(signature, accountKeys)\<close>.
  The class \<open>WalletTracker\<close> has no member of that name, and nothing assigns one: the
  member is \<open>undefined\<close>, written \<open>None\<close> here, and calling it is a \<open>TypeError\<close>.
\<close>

record webhook_body =
  wb_signature :: "string option"
  wb_accountKeys :: "string list option"

definition handleTransaction ::
  "(string option \<Rightarrow> string list option \<Rightarrow> tracker \<Rightarrow> js_error + tracker) option" where
  "handleTransaction = None"

definition webhookPost :: "webhook_body \<Rightarrow> tracker \<Rightarrow> nat \<times> tracker" where
  "webhookPost body t =
     (case handleTransaction of
        None \<Rightarrow> (500, t)
      | Some method \<Rightarrow>
          (case method (wb_signature body) (wb_accountKeys body) t of
             Inl e \<Rightarrow> (500, t)
           | Inr t' \<Rightarrow> (200, t')))"

section \<open>Example inputs\<close>

text \<open>
  Wallet \<open>A\<close> pays 0.2 SOL and its balance of token \<open>X\<close> grows by 100.
\<close>

definition smallBuy :: tx_meta where
  "smallBuy =
     \<lparr> preBalances = Some [1000000000], postBalances = Some [800000000],
       preTokenBalances = Some [],
       postTokenBalances = Some [\<lparr> owner = Some ''A'', mint = ''X'', uiAmount = Some 100 \<rparr>] \<rparr>"

text \<open>
  Wallet \<open>A\<close> pays 1 SOL; its balance of \<open>X\<close> grows from nothing to 10 and its balance of
  \<open>Y\<close> from 5 to 15, and wallet \<open>B\<close> receives 99 of \<open>Z\<close> in between.
\<close>

definition tiedBuy :: tx_meta where
  "tiedBuy =
     \<lparr> preBalances = Some [2000000000], postBalances = Some [1000000000],
       preTokenBalances = Some [\<lparr> owner = Some ''A'', mint = ''Y'', uiAmount = Some 5 \<rparr>],
       postTokenBalances =
         Some [\<lparr> owner = Some ''A'', mint = ''X'', uiAmount = Some 10 \<rparr>,
               \<lparr> owner = Some ''B'', mint = ''Z'', uiAmount = Some 99 \<rparr>,
               \<lparr> owner = Some ''A'', mint = ''Y'', uiAmount = Some 15 \<rparr>] \<rparr>"

text \<open>
  Wallet \<open>A\<close> pays 1 SOL; its balance of \<open>X\<close> grows from 0.1 to 0.3 and its balance of
  \<open>Y\<close> from nothing to 0.2. In doubles, 0.3 - 0.1 is 0.19999999999999998.
\<close>

definition nearTieBuy :: tx_meta where
  "nearTieBuy =
     \<lparr> preBalances = Some [2000000000], postBalances = Some [1000000000],
       preTokenBalances = Some [\<lparr> owner = Some ''A'', mint = ''X'', uiAmount = Some (1 / 10) \<rparr>],
       postTokenBalances =
         Some [\<lparr> owner = Some ''A'', mint = ''X'', uiAmount = Some (3 / 10) \<rparr>,
               \<lparr> owner = Some ''A'', mint = ''Y'', uiAmount = Some (1 / 5) \<rparr>] \<rparr>"

text \<open>
  Wallet \<open>A\<close> pays 1 SOL; its balance of \<open>X\<close> grows from nothing to 0.5 and its balance
  of \<open>Y\<close> from 0.3 to 0.8. In doubles, 0.8 - 0.3 is 0.5.
\<close>

definition roundedTieBuy :: tx_meta where
  "roundedTieBuy =
     \<lparr> preBalances = Some [2000000000], postBalances = Some [1000000000],
       preTokenBalances = Some [\<lparr> owner = Some ''A'', mint = ''Y'', uiAmount = Some (3 / 10) \<rparr>],
       postTokenBalances =
         Some [\<lparr> owner = Some ''A'', mint = ''X'', uiAmount = Some (1 / 2) \<rparr>,
               \<lparr> owner = Some ''A'', mint = ''Y'', uiAmount = Some (4 / 5) \<rparr>] \<rparr>"

text \<open>
  A signal for token \<open>X\<close> with the given spend, and one for token \<open>Y\<close>.
\<close>

definition buyOfX :: "rat \<Rightarrow> token_info" where
  "buyOfX spent =
     \<lparr> tokenAddress = ''X'', tokenName = ''Unknown'', tokenAmount = 100, solAmount = Num spent \<rparr>"

definition buyOfY :: "rat \<Rightarrow> token_info" where
  "buyOfY spent =
     \<lparr> tokenAddress = ''Y'', tokenName = ''Unknown'', tokenAmount = 100, solAmount = Num spent \<rparr>"

text \<open>
  A transaction in which the given wallet pays 0.3 SOL and its balance of \<open>X\<close> grows by 100.
\<close>

definition buysXFor03 :: "string \<Rightarrow> tx" where
  "buysXFor03 walletAddress =
     \<lparr> meta = Some
         \<lparr> preBalances = Some [1000000000], postBalances = Some [700000000],
           preTokenBalances = Some [],
           postTokenBalances =
             Some [\<lparr> owner = Some walletAddress, mint = ''X'', uiAmount = Some 100 \<rparr>] \<rparr> \<rparr>"

text \<open>
  Subscriber 7 with the default threshold of 0.5 SOL and two required wallets, and the
  state after wallet \<open>A\<close>'s and, 15 minutes later, wallet \<open>B\<close>'s transaction have been
  processed, each buying \<open>X\<close> for 0.3 SOL.
\<close>

definition twoRequired :: tracker where
  "twoRequired = setWalletCount 7 (Some 2) newWalletTracker"

definition afterTwoSmallBuys :: tracker where
  "afterTwoSmallBuys =
     processTransaction (\<lambda>_. None) ''sigB'' 7 ''B'' (Some (buysXFor03 ''B'')) None 900000 900000
       (processTransaction (\<lambda>_. None) ''sigA'' 7 ''A'' (Some (buysXFor03 ''A'')) None 0 0
          twoRequired)"

text \<open>
  Subscriber 7 after \<open>/threshold 0.30000000000000004\<close>, and the result of classifying
  wallet \<open>A\<close>'s transaction that pays 0.3 SOL for that subscriber.
\<close>

definition oddThreshold :: tracker where
  "oddThreshold = setThreshold 7 (Some (30000000000000004 / 100000000000000000)) newWalletTracker"

definition classifiedAtOddThreshold :: "token_info option" where
  "classifiedAtOddThreshold =
     fst (extractTokenInfoFromTx (\<lambda>_. None) (Some (buysXFor03 ''A'')) 7 ''A'' oddThreshold)"

text \<open>Subscriber 7 right after its settings object has been created.\<close>

definition subscribed :: tracker where
  "subscribed = snd (getUserSettings 7 newWalletTracker)"

text \<open>
  Subscriber 7 with the default settings (0.5 SOL, three wallets). Wallet \<open>A\<close> buys \<open>X\<close>
  at time 0, wallet \<open>B\<close> buys \<open>X\<close> 50 minutes later, and wallet \<open>C\<close> buys \<open>Y\<close> one
  millisecond after the hour.
\<close>

definition afterFirstBuy :: tracker where
  "afterFirstBuy = ingestSignals (\<lambda>_. None) 7 [(''A'', buyOfX (3 / 4), 0, 0)] newWalletTracker"

definition afterSecondBuy :: tracker where
  "afterSecondBuy =
     ingestSignals (\<lambda>_. None) 7 [(''B'', buyOfX (3 / 4), 3000000, 3000000)] afterFirstBuy"

definition afterOtherBuy :: tracker where
  "afterOtherBuy =
     ingestSignals (\<lambda>_. None) 7 [(''C'', buyOfY (3 / 4), 3600001, 3600001)] afterSecondBuy"

text \<open>
  Three wallets buy \<open>X\<close> for 0.2 SOL each, the second and the third more than an hour
  after the first.
\<close>

definition afterSlowBuys :: tracker where
  "afterSlowBuys =
     ingestSignals (\<lambda>_. None) 7
       [(''A'', buyOfX (1 / 5), 0, 0),
        (''B'', buyOfX (1 / 5), 3600001, 3600001),
        (''C'', buyOfX (1 / 5), 3600002, 3600002)] newWalletTracker"

text \<open>
  Three wallets buy \<open>X\<close> within twenty minutes, for 0.04, 0.42 and 0.04 SOL. In doubles
  the three spends add up to 0.49999999999999994.
\<close>

definition afterBuysOfHalf :: tracker where
  "afterBuysOfHalf =
     ingestSignals (\<lambda>_. None) 7
       [(''A'', buyOfX (1 / 25), 0, 0),
        (''B'', buyOfX (21 / 50), 600000, 600000),
        (''C'', buyOfX (1 / 25), 1200000, 1200000)] newWalletTracker"

text \<open>
  A pool of three endpoints with the last one active and one strike counted, and a call
  that is rate limited at every attempt.
\<close>

definition poolOfThree :: rpc where
  "poolOfThree =
     \<lparr> rpcEndpoints = [''https://a'', ''https://b'', ''https://c''], currentRpcIndex = 2,
       connection = ''https://c'', rateLimitCount = 1, totalRequests = 10,
       totalRotations = 4, lastRotation = 0 \<rparr>"

definition alwaysLimited :: "nat \<Rightarrow> js_error + unit" where
  "alwaysLimited k = Inl RateLimited"

text \<open>
  A pool of two endpoints whose second one is not an HTTP address, as the constructor
  leaves it: it connects to the first endpoint only. \<open>new Connection\<close> throws for an
  address that does not start with \<open>http\<close>.
\<close>

definition poolWithBadUrl :: rpc where
  "poolWithBadUrl =
     \<lparr> rpcEndpoints = [''https://a'', ''ftp://b''], currentRpcIndex = 0,
       connection = ''https://a'', rateLimitCount = 0, totalRequests = 0,
       totalRotations = 0, lastRotation = 0 \<rparr>"

definition startsWithHttp :: "string \<Rightarrow> bool" where
  "startsWithHttp url = (take 4 url = ''http'')"

text \<open>
  Subscribers 7 and 8 both have their settings objects. Subscriber 7 then tracks wallet
  \<open>W\<close> (nickname \<open>whale\<close>), whose newest signature at that time, 5000 ms on the clock,
  is \<open>S0\<close>, and creates a personal wallet.
\<close>

definition bothSubscribed :: tracker where
  "bothSubscribed = snd (getUserSettings 8 (snd (getUserSettings 7 newWalletTracker)))"

definition tracking :: tracker where
  "tracking =
     addWallet True 5000 (Inr [\<lparr> signature = ''S0'', blockTime = Some 4 \<rparr>]) ''W'' ''whale'' 7
       bothSubscribed"

definition withPersonalWallet :: tracker where
  "withPersonalWallet = handleCreateWallet ''PUB'' ''SECRET'' 9000 7 tracking"

text \<open>
  The chain then shows two newer signatures of \<open>W\<close>, \<open>S2\<close> above \<open>S1\<close>. The body of
  \<open>S1\<close> is a buy of \<open>X\<close> by \<open>W\<close> for 0.6 SOL; the body of \<open>S2\<close> is not visible yet.
\<close>

definition twoNewSigs :: "js_error + sig_info list" where
  "twoNewSigs =
     Inr [\<lparr> signature = ''S2'', blockTime = Some 7 \<rparr>, \<lparr> signature = ''S1'', blockTime = Some 6 \<rparr>]"

definition chainBodies :: "string \<Rightarrow> js_error + tx option" where
  "chainBodies sigText =
     (if sigText = ''S1''
      then Inr (Some \<lparr> meta = Some
             \<lparr> preBalances = Some [1000000000], postBalances = Some [400000000],
               preTokenBalances = Some [],
               postTokenBalances =
                 Some [\<lparr> owner = Some ''W'', mint = ''X'', uiAmount = Some 100 \<rparr>] \<rparr> \<rparr>)
      else Inr None)"

text \<open>A webhook request with both fields.\<close>

definition webhookRequest :: webhook_body where
  "webhookRequest = \<lparr> wb_signature = Some ''S1'', wb_accountKeys = Some [''W''] \<rparr>"

section \<open>Properties of the double arithmetic\<close>

text \<open>
  \<open>dbl x\<close> is within half a spacing of \<open>x\<close>: for \<open>x\<close> below \<open>2^k\<close> in absolute value the
  spacing is at most \<open>2^(k-53)\<close>.
\<close>

lemma pow2_powi: "pow2 k = 2 powi k"
  by (simp add: pow2_def power_int_def power_inverse [symmetric] inverse_eq_divide power_one_over)

lemma pow2_add: "pow2 (j + k) = pow2 j * pow2 k"
  by (simp add: pow2_powi power_int_add)

lemma pow2_pos: "0 < pow2 k"
  by (simp add: pow2_powi)

lemma pow2_mono: "j \<le> k \<Longrightarrow> pow2 j \<le> pow2 k"
  by (simp add: pow2_powi power_int_increasing)

lemma pow2_less: "pow2 j < pow2 k \<Longrightarrow> j < k"
  using pow2_mono [of k j] by (cases "j < k") simp_all

lemma pow2_half: "pow2 s / 2 = pow2 (s - 1)"
  using pow2_add [of "s - 1" 1] by (simp add: pow2_def)

lemma bitLength_bounds:
  "0 < n \<Longrightarrow> 1 \<le> bitLength n \<and> 2 ^ nat (bitLength n - 1) \<le> n \<and> n < 2 ^ nat (bitLength n)"
proof (induction n rule: bitLength.induct)
  case (1 n)
  have eq: "bitLength n = 1 + bitLength (n div 2)"
    using "1.prems" by (subst bitLength.simps) simp
  show ?case
  proof (cases "n = 1")
    case True
    have "bitLength (0::int) = 0" by (subst bitLength.simps) simp
    with True eq show ?thesis by simp
  next
    case False
    with "1.prems" have h: "0 < n div 2" by simp
    from "1.IH" "1.prems" h have IH: "1 \<le> bitLength (n div 2)"
      "2 ^ nat (bitLength (n div 2) - 1) \<le> n div 2"
      "n div 2 < 2 ^ nat (bitLength (n div 2))" by simp_all
    define b where "b = nat (bitLength (n div 2) - 1)"
    have b1: "nat (bitLength (n div 2)) = Suc b"
      using IH(1) by (simp add: b_def)
    have b2: "nat (bitLength n - 1) = Suc b" "nat (bitLength n) = Suc (Suc b)"
      using IH(1) eq by (simp_all add: b_def)
    have lo: "(2::int) ^ b \<le> n div 2" using IH(2) by (simp add: b_def)
    have hi: "n div 2 < 2 * (2::int) ^ b" using IH(3) by (simp add: b1)
    have "2 * (2::int) ^ b \<le> n" using lo by arith
    moreover have "n < 2 * (2 * (2::int) ^ b)" using hi by arith
    ultimately have g: "2 ^ nat (bitLength n - 1) \<le> n" "n < 2 ^ nat (bitLength n)"
      unfolding b2 by simp_all
    have "1 \<le> bitLength n" using eq IH(1) by simp
    with g show ?thesis by blast
  qed
qed

lemma binaryExponent_le:
  assumes "0 < a" "0 < q"
  shows "pow2 (binaryExponent a q) \<le> of_int a / of_int q"
proof -
  define k where "k = bitLength a - bitLength q"
  have qpos: "(0::rat) < of_int q" using assms by simp
  have low: "pow2 (k - 1) \<le> of_int a / of_int q"
  proof -
    from bitLength_bounds [OF assms(1)] bitLength_bounds [OF assms(2)]
    have A: "2 ^ nat (bitLength a - 1) \<le> a" and Q: "q < 2 ^ nat (bitLength q)"
      and la: "1 \<le> bitLength a" and lq: "1 \<le> bitLength q" by simp_all
    have "(of_int q :: rat) \<le> of_int (2 ^ nat (bitLength q))" using Q by (simp only: of_int_le_iff)
    then have q': "(of_int q :: rat) \<le> pow2 (bitLength q)" using lq by (simp add: pow2_def)
    have "(of_int (2 ^ nat (bitLength a - 1)) :: rat) \<le> of_int a" using A by (simp only: of_int_le_iff)
    then have a': "pow2 (bitLength a - 1) \<le> (of_int a :: rat)" using la by (simp add: pow2_def)
    have "pow2 (k - 1) * of_int q \<le> pow2 (k - 1) * pow2 (bitLength q)"
      using q' pow2_pos [of "k - 1"] by (simp add: mult_left_mono)
    also have "\<dots> = pow2 (bitLength a - 1)"
      using pow2_add [of "k - 1" "bitLength q"] by (simp add: k_def)
    finally have "pow2 (k - 1) * of_int q \<le> of_int a" using a' by simp
    then show ?thesis using qpos by (simp add: pos_le_divide_eq)
  qed
  show ?thesis
  proof (cases "if k \<ge> 0 then q * 2 ^ nat k \<le> a else q \<le> a * 2 ^ nat (- k)")
    case False
    then show ?thesis using low by (simp add: binaryExponent_def Let_def k_def [symmetric])
  next
    case True
    have "pow2 k \<le> of_int a / of_int q"
    proof (cases "k \<ge> 0")
      case ge: True
      with True have "q * 2 ^ nat k \<le> a" by simp
      then have "(of_int (q * 2 ^ nat k) :: rat) \<le> of_int a" by (simp only: of_int_le_iff)
      then have "of_int q * (2::rat) ^ nat k \<le> of_int a" by simp
      then show ?thesis using qpos ge by (simp add: pow2_def pos_le_divide_eq mult.commute)
    next
      case lt: False
      with True have "q \<le> a * 2 ^ nat (- k)" by simp
      then have "(of_int q :: rat) \<le> of_int (a * 2 ^ nat (- k))" by (simp only: of_int_le_iff)
      then have "(of_int q :: rat) \<le> of_int a * 2 ^ nat (- k)" by simp
      then show ?thesis using qpos lt by (simp add: pow2_def field_simps)
    qed
    then show ?thesis using True by (simp add: binaryExponent_def Let_def k_def [symmetric])
  qed
qed

lemma roundedQuotient_int:
  assumes "0 < d"
  shows "2 * \<bar>d * roundedQuotient n d - n\<bar> \<le> d"
proof -
  have e: "d * (n div d) = n - n mod d" by (simp add: minus_mod_eq_mult_div [symmetric])
  have r: "0 \<le> n mod d" "n mod d < d" using assms by simp_all
  show ?thesis
    using r by (auto simp: roundedQuotient_def Let_def e algebra_simps)
qed

lemma roundedQuotient_near:
  assumes "0 < d"
  shows "\<bar>of_int (roundedQuotient n d) - (of_int n / of_int d :: rat)\<bar> \<le> 1 / 2"
proof -
  define x :: rat where "x = of_int (roundedQuotient n d) - of_int n / of_int d"
  have dpos: "(0::rat) < of_int d" using assms by simp
  have "of_int d * x = of_int (d * roundedQuotient n d - n)"
    using dpos by (simp add: x_def field_simps)
  then have "of_int d * \<bar>x\<bar> = of_int \<bar>d * roundedQuotient n d - n\<bar>"
    using dpos by (metis abs_mult abs_of_pos of_int_abs)
  moreover have "(of_int (2 * \<bar>d * roundedQuotient n d - n\<bar>) :: rat) \<le> of_int d"
    using roundedQuotient_int [OF assms, of n] by (simp only: of_int_le_iff)
  ultimately have "2 * (of_int d * \<bar>x\<bar>) \<le> of_int d" by simp
  then have "of_int d * (2 * \<bar>x\<bar>) \<le> of_int d * 1" by (simp add: mult.left_commute)
  then have "2 * \<bar>x\<bar> \<le> 1" using dpos by (simp only: mult_le_cancel_left_pos)
  then show ?thesis by (simp add: x_def)
qed


lemma dbl_zero: "dbl 0 = 0"
  by (simp add: dbl_def)

lemma dbl_error:
  assumes "x \<noteq> 0"
  shows "\<exists>e. pow2 e \<le> \<bar>x\<bar> \<and> \<bar>dbl x - x\<bar> \<le> pow2 (max e (- 1022) - 53)"
proof -
  obtain p q where pq: "quotient_of x = (p, q)" by (cases "quotient_of x")
  have q: "0 < q" using quotient_of_denom_pos [OF pq] .
  have x: "x = of_int p / of_int q" using quotient_of_div [OF pq] .
  have p: "p \<noteq> 0" using assms x by auto
  define a where "a = \<bar>p\<bar>"
  have a: "0 < a" using p by (simp add: a_def)
  define e where "e = binaryExponent a q"
  define s where "s = max e (- 1022) - 52"
  define n where "n = (if s \<ge> 0 then roundedQuotient a (q * 2 ^ nat s)
                       else roundedQuotient (a * 2 ^ nat (- s)) q)"
  define y where "y = \<bar>x\<bar> / pow2 s"
  have d: "dbl x = of_int (sgn p * n) * pow2 s"
    using pq p by (simp add: dbl_def Let_def a_def e_def s_def n_def)
  have ax: "\<bar>x\<bar> = of_int a / of_int q"
    using q by (simp add: x a_def abs_divide)
  have e: "pow2 e \<le> \<bar>x\<bar>"
    using binaryExponent_le [OF a q] by (simp add: ax e_def)
  have ys: "y * pow2 s = \<bar>x\<bar>"
    using pow2_pos [of s] by (simp add: y_def)
  have near: "\<bar>of_int n - y\<bar> \<le> 1 / 2"
  proof (cases "s \<ge> 0")
    case True
    have "0 < q * 2 ^ nat s" using q by simp
    from roundedQuotient_near [OF this, of a]
    have "\<bar>of_int n - of_int a / (of_int (q * 2 ^ nat s) :: rat)\<bar> \<le> 1 / 2"
      using True by (simp add: n_def)
    moreover have "of_int a / (of_int (q * 2 ^ nat s) :: rat) = y"
      using True by (simp add: y_def ax pow2_def)
    ultimately show ?thesis by simp
  next
    case False
    from roundedQuotient_near [OF q, of "a * 2 ^ nat (- s)"]
    have "\<bar>of_int n - of_int (a * 2 ^ nat (- s)) / (of_int q :: rat)\<bar> \<le> 1 / 2"
      using False by (simp add: n_def)
    moreover have "of_int (a * 2 ^ nat (- s)) / (of_int q :: rat) = y"
      using False by (simp add: y_def ax pow2_def)
    ultimately show ?thesis by simp
  qed
  have "\<bar>dbl x - x\<bar> = \<bar>of_int n - y\<bar> * pow2 s"
  proof (cases "0 < p")
    case True
    then have "x = \<bar>x\<bar>" using q by (simp add: x)
    then have "dbl x - x = (of_int n - y) * pow2 s"
      using True ys by (simp add: d algebra_simps)
    then show ?thesis using pow2_pos [of s] by (simp add: abs_mult)
  next
    case False
    with p have neg: "p < 0" by simp
    then have "x = - \<bar>x\<bar>" using q by (simp add: x abs_divide divide_neg_pos)
    then have "dbl x - x = - ((of_int n - y) * pow2 s)"
      using neg ys by (simp add: d algebra_simps)
    then show ?thesis using pow2_pos [of s] by (simp add: abs_mult)
  qed
  also have "\<dots> \<le> 1 / 2 * pow2 s"
    using near pow2_pos [of s] by (simp add: mult_right_mono)
  also have "\<dots> = pow2 (max e (- 1022) - 53)"
    using pow2_half [of s] by (simp add: s_def)
  finally show ?thesis using e by blast
qed

lemma dbl_near:
  assumes "\<bar>x\<bar> < pow2 k" "- 1021 \<le> k"
  shows "\<bar>dbl x - x\<bar> \<le> pow2 (k - 54)"
proof (cases "x = 0")
  case True
  then show ?thesis using pow2_pos [of "k - 54"] by (simp add: dbl_zero)
next
  case False
  from dbl_error [OF False] obtain e where
    e: "pow2 e \<le> \<bar>x\<bar>" "\<bar>dbl x - x\<bar> \<le> pow2 (max e (- 1022) - 53)" by blast
  have "pow2 e < pow2 k" using e(1) assms(1) by simp
  then have "e < k" by (rule pow2_less)
  then have "max e (- 1022) - 53 \<le> k - 54" using assms(2) by simp
  then have "pow2 (max e (- 1022) - 53) \<le> pow2 (k - 54)" by (rule pow2_mono)
  with e(2) show ?thesis by simp
qed


text \<open>
  A balance that decreases by at most 400000000 lamports: whatever the balance, an unsigned
  64-bit number of lamports, the program's spend is below 0.5 SOL.
\<close>

lemma dbl_half: "dbl (1 / 2) = 1 / 2"
  by code_simp

lemma spend_of_small_decrease:
  fixes p q d :: nat
  assumes "p = q + d" "d \<le> 400000000" "p < 2 ^ 64"
  shows "js_lt (js_max0 (js_sub (lamportsToSol (Some p)) (lamportsToSol (Some q)))) (Num (1 / 2))"
proof -
  define P :: rat where "P = of_nat p"
  define Q :: rat where "Q = of_nat q"
  define A where "A = dbl P"
  define B where "B = dbl Q"
  define X where "X = dbl (A / 1000000000)"
  define Y where "Y = dbl (B / 1000000000)"
  define D where "D = dbl (dbl X - dbl Y)"
  define M where "M = max 0 (dbl D)"
  have "P = of_nat (q + d)" using assms(1) by (simp only: P_def)
  then have PQ: "P = Q + of_nat d" by (simp add: Q_def)
  have "(of_nat d :: rat) \<le> of_nat 400000000" using assms(2) by (simp only: of_nat_le_iff)
  then have d: "(of_nat d :: rat) \<le> 400000000" "(0::rat) \<le> of_nat d" by simp_all
  have Q0: "0 \<le> Q" by (simp add: Q_def)
  have "(of_nat p :: rat) < of_nat (2 ^ 64)" using assms(3) by (simp only: of_nat_less_iff)
  then have P64: "P < 18446744073709551616" by (simp add: P_def)
  have p64: "pow2 64 = 18446744073709551616" "pow2 35 = 34359738368" "pow2 (- 1) = 1 / 2"
    by (simp_all add: pow2_def)
  have "\<bar>P\<bar> < pow2 64" unfolding p64 using PQ d Q0 P64 by linarith
  from dbl_near [OF this]
  have A: "\<bar>A - P\<bar> \<le> 1024" by (simp add: pow2_def A_def)
  have "\<bar>Q\<bar> < pow2 64" unfolding p64 using PQ d Q0 P64 by linarith
  from dbl_near [OF this]
  have B: "\<bar>B - Q\<bar> \<le> 1024" by (simp add: pow2_def B_def)
  have "\<bar>A / 1000000000\<bar> < pow2 35" unfolding p64 using A PQ d Q0 P64 by linarith
  from dbl_near [OF this]
  have X: "\<bar>X - A / 1000000000\<bar> \<le> 1 / 524288" by (simp add: pow2_def X_def)
  have "\<bar>B / 1000000000\<bar> < pow2 35" unfolding p64 using B PQ d Q0 P64 by linarith
  from dbl_near [OF this]
  have Y: "\<bar>Y - B / 1000000000\<bar> \<le> 1 / 524288" by (simp add: pow2_def Y_def)
  have "\<bar>X\<bar> < pow2 35" unfolding p64 using X A PQ d Q0 P64 by linarith
  from dbl_near [OF this]
  have X2: "\<bar>dbl X - X\<bar> \<le> 1 / 524288" by (simp add: pow2_def)
  have "\<bar>Y\<bar> < pow2 35" unfolding p64 using Y B PQ d Q0 P64 by linarith
  from dbl_near [OF this]
  have Y2: "\<bar>dbl Y - Y\<bar> \<le> 1 / 524288" by (simp add: pow2_def)
  have diff: "\<bar>dbl X - dbl Y\<bar> < 41 / 100"
    using X Y X2 Y2 A B PQ d by linarith
  then have "\<bar>dbl X - dbl Y\<bar> < pow2 (- 1)" unfolding p64 by linarith
  from dbl_near [OF this]
  have "\<bar>D - (dbl X - dbl Y)\<bar> \<le> 1 / 36028797018963968" by (simp add: pow2_def D_def)
  with diff have D: "\<bar>D\<bar> < 42 / 100" by linarith
  then have "\<bar>D\<bar> < pow2 (- 1)" unfolding p64 by linarith
  from dbl_near [OF this]
  have "\<bar>dbl D - D\<bar> \<le> 1 / 36028797018963968" by (simp add: pow2_def)
  with D have M: "\<bar>M\<bar> < 43 / 100" unfolding M_def by linarith
  then have "\<bar>M\<bar> < pow2 (- 1)" unfolding p64 by linarith
  from dbl_near [OF this]
  have "\<bar>dbl M - M\<bar> \<le> 1 / 36028797018963968" by (simp add: pow2_def)
  with M have "dbl M < 1 / 2" by linarith
  then show ?thesis
    by (simp add: js_lt.simps js_max0.simps js_sub.simps dbl_half
          P_def Q_def A_def B_def X_def Y_def D_def M_def)
qed

section \<open>Properties of the classifier\<close>

lemma getUserSettings_known:
  "userSettings t chatId = Some s \<Longrightarrow> getUserSettings chatId t = (s, t)"
  by (simp add: getUserSettings_def)

lemma extract_rejects:
  assumes "meta body = Some m"
    and "js_lt (netSolSpent m) (Num (solThreshold (fst (getUserSettings chatId t))))"
  shows "fst (extractTokenInfoFromTx enrich (Some body) chatId walletAddress t) = None"
  using assms by (auto simp: extractTokenInfoFromTx_def Let_def split: prod.splits)

lemma netSolSpent_balances:
  "preBalances m = Some (p # ps) \<Longrightarrow> postBalances m = Some (q # qs) \<Longrightarrow>
   netSolSpent m = js_max0 (js_sub (lamportsToSol (Some p)) (lamportsToSol (Some q)))"
  by (simp add: netSolSpent_def)

text \<open>The doubles of the examples.\<close>

lemma dbl_of_small_integers:
  "dbl 5 = 5" "dbl 10 = 10" "dbl 15 = 15" "dbl 100 = 100"
  by code_simp+

lemma spent_smallBuy:
  "netSolSpent smallBuy = Num (900719925474099 / 4503599627370496)"
proof -
  have "js_max0 (js_sub (Num (dbl (dbl 1000000000 / 1000000000)))
                        (Num (dbl (dbl 800000000 / 1000000000)))) =
        Num (900719925474099 / 4503599627370496)"
    by code_simp
  then show ?thesis
    by (simp add: netSolSpent_def smallBuy_def)
qed

lemma spent_buysXFor03:
  "netSolSpent \<lparr> preBalances = Some [1000000000], postBalances = Some [700000000],
       preTokenBalances = pre, postTokenBalances = post \<rparr> =
   Num (1351079888211149 / 4503599627370496)"
proof -
  have "js_max0 (js_sub (Num (dbl (dbl 1000000000 / 1000000000)))
                        (Num (dbl (dbl 700000000 / 1000000000)))) =
        Num (1351079888211149 / 4503599627370496)"
    by code_simp
  then show ?thesis
    by (simp add: netSolSpent_def)
qed

lemma spent_one_sol:
  "netSolSpent \<lparr> preBalances = Some [2000000000], postBalances = Some [1000000000],
       preTokenBalances = pre, postTokenBalances = post \<rparr> = Num 1"
proof -
  have "js_max0 (js_sub (Num (dbl (dbl 2000000000 / 1000000000)))
                        (Num (dbl (dbl 1000000000 / 1000000000)))) = Num 1"
    by code_simp
  then show ?thesis
    by (simp add: netSolSpent_def)
qed

lemma threshold_tests:
  "js_lt (Num (900719925474099 / 4503599627370496)) (Num (1 / 2))"
  "js_lt (Num (1351079888211149 / 4503599627370496)) (Num (1 / 2))"
  "\<not> js_lt (Num 1) (Num (1 / 2))"
  "\<not> js_lt (Num (1351079888211149 / 4503599627370496))
          (Num (1351079888211149 / 4503599627370496))"
  by code_simp+

text \<open>
  C5. The classifier's spend is \<open>Math.max(0, preSOL - postSOL)\<close>, where \<open>preSOL\<close> and
  \<open>postSOL\<close> are the balances at index 0 divided by \<open>1e9\<close>, all in the program's
  double arithmetic, and a transaction whose spend is below the subscriber's \<open>solThreshold\<close>
  yields \<open>null\<close>, whatever its token balances are. In particular, under a threshold of
  0.5 SOL a transaction whose balance at index 0, an unsigned 64-bit number of lamports,
  decreases by 0.2 SOL (200000000 lamports) yields \<open>null\<close>.
\<close>

theorem classifier_rejects_below_threshold:
  assumes "meta body = Some m"
  shows "(preBalances m = Some (p # ps) \<and> postBalances m = Some (q # qs) \<longrightarrow>
           netSolSpent m = js_max0 (js_sub (lamportsToSol (Some p)) (lamportsToSol (Some q))))
       \<and> (js_lt (netSolSpent m) (Num (solThreshold (fst (getUserSettings chatId t)))) \<longrightarrow>
           fst (extractTokenInfoFromTx enrich (Some body) chatId walletAddress t) = None)
       \<and> (preBalances m = Some (p # ps) \<and> postBalances m = Some (q # qs)
           \<and> p = q + 200000000 \<and> p < 2 ^ 64
           \<and> solThreshold (fst (getUserSettings chatId t)) = 1 / 2 \<longrightarrow>
           fst (extractTokenInfoFromTx enrich (Some body) chatId walletAddress t) = None)"
proof -
  have "fst (extractTokenInfoFromTx enrich (Some body) chatId walletAddress t) = None"
    if b: "preBalances m = Some (p # ps)" "postBalances m = Some (q # qs)"
      and d: "p = q + 200000000" "p < 2 ^ 64"
      and thr: "solThreshold (fst (getUserSettings chatId t)) = 1 / 2"
  proof -
    have "js_lt (netSolSpent m) (Num (1 / 2))"
      using spend_of_small_decrease [OF d(1) _ d(2)] netSolSpent_balances [OF b] by simp
    then show ?thesis
      using extract_rejects [OF assms, of chatId t] by (simp add: thr)
  qed
  then show ?thesis
    using assms extract_rejects netSolSpent_balances by blast
qed

text \<open>
  The theorem at balances of 1000000000 and 800000000 lamports under the default threshold
  of 0.5 SOL, with a token balance of the wallet that grows: the program's spend is
  0.19999999999999996, and no signal comes out.
\<close>

theorem classifier_rejects_below_threshold_witness:
  "netSolSpent smallBuy = Num (900719925474099 / 4503599627370496)
   \<and> solThreshold (fst (getUserSettings 7 newWalletTracker)) = 1 / 2
   \<and> increasesOf ''A'' smallBuy = [(''X'', 100)]
   \<and> fst (extractTokenInfoFromTx (\<lambda>_. None) (Some \<lparr> meta = Some smallBuy \<rparr>) 7 ''A''
            newWalletTracker) = None"
proof -
  have thr: "solThreshold (fst (getUserSettings 7 newWalletTracker)) = 1 / 2"
    by (simp add: getUserSettings_def newWalletTracker_def Let_def)
  have inc: "increasesOf ''A'' smallBuy = [(''X'', 100)]"
    by (simp add: increasesOf_def walletIncreases_def preBalanceMapOf_def smallBuy_def
          dbl_of_small_integers)
  have bal: "preBalances smallBuy = Some [1000000000]"
    "postBalances smallBuy = Some [800000000]"
    by (simp_all add: smallBuy_def)
  have "meta \<lparr> meta = Some smallBuy \<rparr> = Some smallBuy"
    by simp
  from classifier_rejects_below_threshold[OF this, where p = 1000000000 and ps = "[]"
      and q = 800000000 and qs = "[]" and chatId = 7 and t = newWalletTracker
      and enrich = "\<lambda>_. None" and walletAddress = "''A''"]
  show ?thesis using spent_smallBuy thr inc bal threshold_tests(1) by simp
qed

text \<open>
  The threshold test compares doubles. After \<open>/threshold 0.30000000000000004\<close> a
  transaction with balances of 1000000000 and 700000000 lamports passes: the program's
  spend, \<open>1 - 0.7\<close>, is the double 0.30000000000000004 itself.
\<close>

lemma rounded_spend_meets_threshold:
  "solThreshold (fst (getUserSettings 7 oddThreshold)) = 1351079888211149 / 4503599627370496
   \<and> classifiedAtOddThreshold =
       Some \<lparr> tokenAddress = ''X'', tokenName = ''Unknown'', tokenAmount = 100,
              solAmount = Num (1351079888211149 / 4503599627370496) \<rparr>"
proof -
  have d: "dbl (7500000000000001 / 25000000000000000) = 1351079888211149 / 4503599627370496"
    by code_simp
  have thr: "userSettings oddThreshold 7 =
      Some \<lparr> solThreshold = 1351079888211149 / 4503599627370496, requiredWallets = 3,
             wallets = 4, isPaused = False, lastProcessedSignatures = 1, userWallets = 2,
             monitoringStartTimes = 3 \<rparr>"
    by (simp add: d oddThreshold_def setThreshold_def getUserSettings_def
          newWalletTracker_def Let_def)
  show ?thesis
    using thr
    by (simp add: classifiedAtOddThreshold_def extractTokenInfoFromTx_def buysXFor03_def
          getUserSettings_known spent_buysXFor03 threshold_tests selectToken_def
          preBalanceMapOf_def enrichedName_def dbl_of_small_integers Let_def)
qed

text \<open>
  Balances of 700000000 and 200000000 lamports differ by 0.5 SOL, and the program's spend,
  \<open>0.7 - 0.2\<close>, is 0.49999999999999994: under the default threshold no signal comes out.
\<close>

lemma rounded_spend_below_threshold:
  "netSolSpent \<lparr> preBalances = Some [700000000], postBalances = Some [200000000],
       preTokenBalances = pre, postTokenBalances = post \<rparr> =
     Num (9007199254740991 / 18014398509481984)
   \<and> fst (extractTokenInfoFromTx enrich
        (Some \<lparr> meta = Some \<lparr> preBalances = Some [700000000], postBalances = Some [200000000],
                               preTokenBalances = pre, postTokenBalances = post \<rparr> \<rparr>)
        7 walletAddress newWalletTracker) = None"
proof -
  have "js_max0 (js_sub (Num (dbl (dbl 700000000 / 1000000000)))
                        (Num (dbl (dbl 200000000 / 1000000000)))) =
        Num (9007199254740991 / 18014398509481984)"
    "js_lt (Num (9007199254740991 / 18014398509481984)) (Num (1 / 2))"
    by code_simp+
  then show ?thesis
    by (simp add: extractTokenInfoFromTx_def netSolSpent_def getUserSettings_def
          newWalletTracker_def Let_def)
qed

lemma largestIncrease_char:
  "largestIncrease w pre post (a, amt) = (a', amt') \<Longrightarrow>
     ((\<forall>e\<in>set (walletIncreases w pre post). snd e \<le> amt) \<and> a' = a \<and> amt' = amt) \<or>
     (\<exists>xs m ys. walletIncreases w pre post = xs @ (m, amt') # ys \<and> a' = Some m \<and> amt < amt' \<and>
        (\<forall>e\<in>set xs. snd e < amt') \<and> (\<forall>e\<in>set ys. snd e \<le> amt'))"
proof (induction post arbitrary: a amt)
  case Nil
  then show ?case by (simp add: walletIncreases_def)
next
  case (Cons b bs)
  show ?case
  proof (cases "owner b = Some w")
    case False
    then have "walletIncreases w pre (b # bs) = walletIncreases w pre bs"
      by (simp add: walletIncreases_def)
    moreover from False Cons.prems have "largestIncrease w pre bs (a, amt) = (a', amt')"
      by simp
    ultimately show ?thesis using Cons.IH by simp
  next
    case True
    define d where "d = dbl (or0 (uiAmount b) - storedOr0 (pre (mint b)))"
    have ds: "walletIncreases w pre (b # bs) = (mint b, d) # walletIncreases w pre bs"
      using True by (simp add: walletIncreases_def d_def)
    show ?thesis
    proof (cases "d > amt")
      case gt: True
      with True Cons.prems have "largestIncrease w pre bs (Some (mint b), d) = (a', amt')"
        by (simp add: d_def Let_def)
      from Cons.IH[OF this] show ?thesis
      proof
        assume h: "(\<forall>e\<in>set (walletIncreases w pre bs). snd e \<le> d) \<and> a' = Some (mint b) \<and> amt' = d"
        then have "walletIncreases w pre (b # bs) = [] @ (mint b, amt') # walletIncreases w pre bs"
          using ds by simp
        with h gt show ?thesis
          by (intro disjI2 exI[of _ "[]"] exI[of _ "mint b"] exI[of _ "walletIncreases w pre bs"]) simp
      next
        assume "\<exists>xs m ys. walletIncreases w pre bs = xs @ (m, amt') # ys \<and> a' = Some m \<and> d < amt' \<and>
          (\<forall>e\<in>set xs. snd e < amt') \<and> (\<forall>e\<in>set ys. snd e \<le> amt')"
        then obtain xs m ys where h: "walletIncreases w pre bs = xs @ (m, amt') # ys" "a' = Some m"
          "d < amt'" "\<forall>e\<in>set xs. snd e < amt'" "\<forall>e\<in>set ys. snd e \<le> amt'" by blast
        have "walletIncreases w pre (b # bs) = ((mint b, d) # xs) @ (m, amt') # ys"
          using ds h(1) by simp
        moreover have "\<forall>e\<in>set ((mint b, d) # xs). snd e < amt'" using h by simp
        moreover have "amt < amt'" using gt h(3) by simp
        ultimately show ?thesis using h(2,5)
          by (intro disjI2 exI[of _ "(mint b, d) # xs"] exI[of _ m] exI[of _ ys]) simp
      qed
    next
      case le: False
      with True Cons.prems have "largestIncrease w pre bs (a, amt) = (a', amt')"
        by (simp add: d_def Let_def)
      from Cons.IH[OF this] show ?thesis
      proof
        assume "(\<forall>e\<in>set (walletIncreases w pre bs). snd e \<le> amt) \<and> a' = a \<and> amt' = amt"
        then show ?thesis using ds le by simp
      next
        assume "\<exists>xs m ys. walletIncreases w pre bs = xs @ (m, amt') # ys \<and> a' = Some m \<and> amt < amt' \<and>
          (\<forall>e\<in>set xs. snd e < amt') \<and> (\<forall>e\<in>set ys. snd e \<le> amt')"
        then obtain xs m ys where h: "walletIncreases w pre bs = xs @ (m, amt') # ys" "a' = Some m"
          "amt < amt'" "\<forall>e\<in>set xs. snd e < amt'" "\<forall>e\<in>set ys. snd e \<le> amt'" by blast
        have "walletIncreases w pre (b # bs) = ((mint b, d) # xs) @ (m, amt') # ys"
          using ds h(1) by simp
        moreover have "\<forall>e\<in>set ((mint b, d) # xs). snd e < amt'" using h le by simp
        ultimately show ?thesis using h(2,3,5)
          by (intro disjI2 exI[of _ "(mint b, d) # xs"] exI[of _ m] exI[of _ ys]) simp
      qed
    qed
  qed
qed

text \<open>
  C6. Among the wallet-owned entries of \<open>postTokenBalances\<close>, the classifier reports the
  mint of the largest strictly positive increase, and of the first entry that has it when
  several do: the entries before the reported one have strictly smaller increases and the
  entries after it have increases that are not larger. When no entry has a positive
  increase it reports \<open>unknown\<close> with amount 0. An increase is the difference
  \<open>postAmount - preAmount\<close> as the program computes it, a double. Mints are not empty
  strings, and the transaction passes the threshold.
\<close>

theorem classifier_selects_largest_increase:
  assumes body: "meta body = Some m"
    and pass: "\<not> js_lt (netSolSpent m) (Num (solThreshold (fst (getUserSettings chatId t))))"
    and mints: "\<forall>e\<in>set (increasesOf w m). fst e \<noteq> []"
  shows "\<exists>info. fst (extractTokenInfoFromTx enrich (Some body) chatId w t) = Some info \<and>
           ((\<forall>e\<in>set (increasesOf w m). snd e \<le> 0) \<longrightarrow>
              tokenAddress info = ''unknown'' \<and> tokenAmount info = 0) \<and>
           ((\<exists>e\<in>set (increasesOf w m). snd e > 0) \<longrightarrow>
              0 < tokenAmount info \<and>
              (\<exists>xs ys. increasesOf w m = xs @ (tokenAddress info, tokenAmount info) # ys \<and>
                 (\<forall>e\<in>set xs. snd e < tokenAmount info) \<and>
                 (\<forall>e\<in>set ys. snd e \<le> tokenAmount info)))"
proof -
  obtain a amt where sel: "selectToken w m = (a, amt)"
    by (cases "selectToken w m") blast
  let ?info = "\<lparr> tokenAddress = orUnknown a, tokenName = enrichedName enrich (orUnknown a),
                  tokenAmount = amt, solAmount = netSolSpent m \<rparr>"
  have res: "fst (extractTokenInfoFromTx enrich (Some body) chatId w t) = Some ?info"
    using body pass sel
    by (auto simp: extractTokenInfoFromTx_def Let_def split: prod.splits)
  have char: "((\<forall>e\<in>set (increasesOf w m). snd e \<le> 0) \<and> a = None \<and> amt = 0) \<or>
     (\<exists>xs mt ys. increasesOf w m = xs @ (mt, amt) # ys \<and> a = Some mt \<and> 0 < amt \<and>
        (\<forall>e\<in>set xs. snd e < amt) \<and> (\<forall>e\<in>set ys. snd e \<le> amt))"
  proof (cases "postTokenBalances m")
    case None
    with sel show ?thesis by (simp add: increasesOf_def selectToken_def)
  next
    case (Some post)
    with sel have "largestIncrease w (preBalanceMapOf w m) post (None, 0) = (a, amt)"
      by (simp add: selectToken_def)
    from largestIncrease_char[OF this] show ?thesis using Some by (simp add: increasesOf_def)
  qed
  from char show ?thesis
  proof
    assume h: "(\<forall>e\<in>set (increasesOf w m). snd e \<le> 0) \<and> a = None \<and> amt = 0"
    then have "\<not> (\<exists>e\<in>set (increasesOf w m). snd e > 0)" by fastforce
    with h res show ?thesis by simp
  next
    assume "\<exists>xs mt ys. increasesOf w m = xs @ (mt, amt) # ys \<and> a = Some mt \<and> 0 < amt \<and>
        (\<forall>e\<in>set xs. snd e < amt) \<and> (\<forall>e\<in>set ys. snd e \<le> amt)"
    then obtain xs mt ys where h: "increasesOf w m = xs @ (mt, amt) # ys" "a = Some mt" "0 < amt"
      "\<forall>e\<in>set xs. snd e < amt" "\<forall>e\<in>set ys. snd e \<le> amt" by blast
    from h(1) mints have "mt \<noteq> []" by simp
    with h(2) have addr: "orUnknown a = mt" by simp
    have pos: "\<not> (\<forall>e\<in>set (increasesOf w m). snd e \<le> 0)"
      using h(1,3) by auto
    have "\<exists>xs ys. increasesOf w m = xs @ (tokenAddress ?info, tokenAmount ?info) # ys \<and>
                 (\<forall>e\<in>set xs. snd e < tokenAmount ?info) \<and>
                 (\<forall>e\<in>set ys. snd e \<le> tokenAmount ?info)"
      using h addr by (intro exI[of _ xs] exI[of _ ys]) simp
    with res pos h(3) show ?thesis by simp
  qed
qed


text \<open>
  The theorem at a transaction where \<open>X\<close> and \<open>Y\<close> both grow by 10 and \<open>X\<close> is listed
  first: it forces \<open>X\<close>.
\<close>

theorem classifier_selects_largest_increase_witness:
  "increasesOf ''A'' tiedBuy = [(''X'', 10), (''Y'', 10)]
   \<and> (\<exists>info. fst (extractTokenInfoFromTx (\<lambda>_. None) (Some \<lparr> meta = Some tiedBuy \<rparr>) 7 ''A''
                     newWalletTracker) = Some info
        \<and> tokenAddress info = ''X'' \<and> tokenAmount info = 10)"
proof -
  have inc: "increasesOf ''A'' tiedBuy = [(''X'', 10), (''Y'', 10)]"
    by (simp add: increasesOf_def walletIncreases_def preBalanceMapOf_def tiedBuy_def
          dbl_of_small_integers)
  have body: "meta \<lparr> meta = Some tiedBuy \<rparr> = Some tiedBuy"
    by simp
  have pass: "\<not> js_lt (netSolSpent tiedBuy)
                  (Num (solThreshold (fst (getUserSettings 7 newWalletTracker))))"
    by (simp add: tiedBuy_def spent_one_sol threshold_tests getUserSettings_def
          newWalletTracker_def Let_def)
  have mints: "\<forall>e\<in>set (increasesOf ''A'' tiedBuy). fst e \<noteq> []"
    by (simp add: inc)
  from classifier_selects_largest_increase[OF body pass mints, of "\<lambda>_. None"]
  obtain info xs ys where
    res: "fst (extractTokenInfoFromTx (\<lambda>_. None) (Some \<lparr> meta = Some tiedBuy \<rparr>) 7 ''A''
                 newWalletTracker) = Some info"
    and split: "[(''X'', 10), (''Y'', 10 :: rat)] = xs @ (tokenAddress info, tokenAmount info) # ys"
    and before: "\<forall>e\<in>set xs. snd e < tokenAmount info"
    by (auto simp: inc)
  from split before have "tokenAddress info = ''X'' \<and> tokenAmount info = 10"
    by (cases xs) (auto simp: Cons_eq_append_conv)
  with inc res show ?thesis by blast
qed

text \<open>
  An increase is a rounded difference: where \<open>X\<close> grows from 0.1 to 0.3 and \<open>Y\<close> from
  nothing to 0.2, the program's increase of \<open>X\<close> is 0.19999999999999998, below the 0.2 of
  \<open>Y\<close>, and \<open>Y\<close> is reported although \<open>X\<close> is listed first.
\<close>

lemma rounded_increase_decides:
  "increasesOf ''A'' nearTieBuy =
     [(''X'', 7205759403792793 / 36028797018963968),
      (''Y'', 3602879701896397 / 18014398509481984)]
   \<and> fst (extractTokenInfoFromTx (\<lambda>_. None) (Some \<lparr> meta = Some nearTieBuy \<rparr>) 7 ''A''
            newWalletTracker) =
       Some \<lparr> tokenAddress = ''Y'', tokenName = ''Unknown'',
              tokenAmount = 3602879701896397 / 18014398509481984, solAmount = Num 1 \<rparr>"
proof -
  have d: "dbl (1 / 10) = 3602879701896397 / 36028797018963968"
    "dbl (3 / 10) = 5404319552844595 / 18014398509481984"
    "dbl (1 / 5) = 3602879701896397 / 18014398509481984"
    "dbl (7205759403792793 / 36028797018963968) = 7205759403792793 / 36028797018963968"
    "dbl (3602879701896397 / 18014398509481984) = 3602879701896397 / 18014398509481984"
    by code_simp+
  have inc: "increasesOf ''A'' nearTieBuy =
     [(''X'', 7205759403792793 / 36028797018963968),
      (''Y'', 3602879701896397 / 18014398509481984)]"
    by (simp add: d increasesOf_def walletIncreases_def preBalanceMapOf_def nearTieBuy_def)
  have "fst (extractTokenInfoFromTx (\<lambda>_. None) (Some \<lparr> meta = Some nearTieBuy \<rparr>) 7 ''A''
            newWalletTracker) =
       Some \<lparr> tokenAddress = ''Y'', tokenName = ''Unknown'',
              tokenAmount = 3602879701896397 / 18014398509481984, solAmount = Num 1 \<rparr>"
    by (simp add: d extractTokenInfoFromTx_def nearTieBuy_def spent_one_sol threshold_tests
          getUserSettings_def newWalletTracker_def selectToken_def preBalanceMapOf_def
          enrichedName_def Let_def)
  with inc show ?thesis by simp
qed

text \<open>
  The doubles 0.8 and 0.3 differ by a little more than 0.5, and their difference in doubles
  is 0.5: the two increases tie and the classifier keeps the first one.
\<close>

lemma rounded_tie_keeps_first:
  "increasesOf ''A'' roundedTieBuy = [(''X'', 1 / 2), (''Y'', 1 / 2)]
   \<and> fst (extractTokenInfoFromTx (\<lambda>_. None) (Some \<lparr> meta = Some roundedTieBuy \<rparr>) 7 ''A''
            newWalletTracker) =
       Some \<lparr> tokenAddress = ''X'', tokenName = ''Unknown'', tokenAmount = 1 / 2,
              solAmount = Num 1 \<rparr>"
proof -
  have d: "dbl (3 / 10) = 5404319552844595 / 18014398509481984"
    "dbl (4 / 5) = 3602879701896397 / 4503599627370496"
    "dbl (1 / 2) = 1 / 2"
    "dbl (9007199254740993 / 18014398509481984) = 1 / 2"
    by code_simp+
  have inc: "increasesOf ''A'' roundedTieBuy = [(''X'', 1 / 2), (''Y'', 1 / 2)]"
    by (simp add: d increasesOf_def walletIncreases_def preBalanceMapOf_def roundedTieBuy_def)
  have "fst (extractTokenInfoFromTx (\<lambda>_. None) (Some \<lparr> meta = Some roundedTieBuy \<rparr>) 7 ''A''
            newWalletTracker) =
       Some \<lparr> tokenAddress = ''X'', tokenName = ''Unknown'', tokenAmount = 1 / 2,
              solAmount = Num 1 \<rparr>"
    by (simp add: d extractTokenInfoFromTx_def roundedTieBuy_def spent_one_sol threshold_tests
          getUserSettings_def newWalletTracker_def selectToken_def preBalanceMapOf_def
          enrichedName_def Let_def)
  with inc show ?thesis by simp
qed

section \<open>Properties of the aggregator\<close>

lemma getUserSettings_windows:
  "recentTransactions (snd (getUserSettings chatId t)) = recentTransactions t"
  "sentAlerts (snd (getUserSettings chatId t)) = sentAlerts t"
  by (simp_all add: getUserSettings_def Let_def split: option.splits)


lemma processTransaction_alerts:
  "sentAlerts (processTransaction enrich sg chatId w txo (Some info) now0 now1 t) =
     (if alertConditions (fst (getUserSettings chatId t)) (signalWindow t chatId w info now0)
      then sentAlerts t @
        [\<lparr> alert_chatId = chatId, alert_tokenAddress = tokenAddress info,
           alert_tokenName = tokenName info,
           alert_buyers = buyers (signalWindow t chatId w info now0),
           alert_totalSolSpent = totalSolSpentOnToken (signalWindow t chatId w info now0) \<rparr>]
      else sentAlerts t)"
  by (cases "getUserSettings chatId t")
     (use getUserSettings_windows[of chatId t] in
       \<open>simp add: processTransaction_def Let_def signalWindow_def sendAlert_def\<close>)

lemma processTransaction_windows:
  "recentTransactions (processTransaction enrich sg chatId w txo (Some info) now0 now1 t) =
     cleanupOldEntries now1
       (if alertConditions (fst (getUserSettings chatId t)) (signalWindow t chatId w info now0)
        then (recentTransactions t)((chatId, tokenAddress info) := None)
        else (recentTransactions t)((chatId, tokenAddress info) \<mapsto>
               signalWindow t chatId w info now0))"
  by (cases "getUserSettings chatId t")
     (use getUserSettings_windows[of chatId t] in
       \<open>simp add: processTransaction_def Let_def signalWindow_def sendAlert_def\<close>)

lemma processTransaction_settings:
  "userSettings t chatId = Some s \<Longrightarrow>
   userSettings (processTransaction enrich sg chatId w txo (Some info) now0 now1 t) = userSettings t
   \<and> strMaps (processTransaction enrich sg chatId w txo (Some info) now0 now1 t) = strMaps t"
  by (simp add: processTransaction_def Let_def getUserSettings_known sendAlert_def)

lemma cleanup_apply:
  "cleanupOldEntries now rt k =
     (case rt k of None \<Rightarrow> None | Some d \<Rightarrow> if now - timestamp d > 3600000 then None else Some d)"
  by (simp add: cleanupOldEntries_def)

lemma ingest_quiet:
  assumes "userSettings t c = Some s"
    and "\<not> alertConditions s (signalWindow t c w info now0)"
    and "now1 - timestamp (signalWindow t c w info now0) \<le> 3600000"
  shows "sentAlerts (processTransaction enrich sg c w txo (Some info) now0 now1 t) = sentAlerts t"
    and "recentTransactions (processTransaction enrich sg c w txo (Some info) now0 now1 t)
           (c, tokenAddress info) = Some (signalWindow t c w info now0)"
    and "userSettings (processTransaction enrich sg c w txo (Some info) now0 now1 t) =
           userSettings t"
  using assms
  by (simp_all add: processTransaction_alerts processTransaction_windows
        processTransaction_settings getUserSettings_known cleanup_apply)

lemma ingest_alert:
  assumes "userSettings t c = Some s"
    and "alertConditions s (signalWindow t c w info now0)"
  shows "sentAlerts (processTransaction enrich sg c w txo (Some info) now0 now1 t) =
      sentAlerts t @
        [\<lparr> alert_chatId = c, alert_tokenAddress = tokenAddress info,
           alert_tokenName = tokenName info,
           alert_buyers = buyers (signalWindow t c w info now0),
           alert_totalSolSpent = totalSolSpentOnToken (signalWindow t c w info now0) \<rparr>]"
    and "recentTransactions (processTransaction enrich sg c w txo (Some info) now0 now1 t)
           (c, tokenAddress info) = None"
    and "userSettings (processTransaction enrich sg c w txo (Some info) now0 now1 t) =
           userSettings t"
  using assms
  by (simp_all add: processTransaction_alerts processTransaction_windows
        processTransaction_settings getUserSettings_known cleanup_apply)

lemma signalWindow_fresh:
  "recentTransactions t (c, tokenAddress info) = None \<Longrightarrow>
   signalWindow t c w info now0 =
     \<lparr> buyers = [(w, js_add (Num 0) (solAmount info))], timestamp = now0, firstSeen = now0 \<rparr>"
  by (simp add: signalWindow_def openWindow_def addBuyer_def previousAmount_def jsmap_get_def)

lemma signalWindow_open:
  "recentTransactions t (c, tokenAddress info) = Some d \<Longrightarrow>
   signalWindow t c w info now0 = addBuyer d w (solAmount info)"
  by (simp add: signalWindow_def openWindow_def)

text \<open>The doubles of the examples.\<close>

lemma stored_spends:
  "js_add (Num 0) (Num (3 / 10)) = Num (dbl (3 / 10))"
  "js_add (Num 0) (Num (1 / 5)) = Num (dbl (1 / 5))"
  "js_add (Num 0) (Num (3 / 4)) = Num (3 / 4)"
  by code_simp+

lemma pooled_spends:
  "pooledSpend [3 / 10, 3 / 10] = Num (dbl (3 / 5))"
  "pooledSpend [1 / 5, 1 / 5, 1 / 5] = Num (1351079888211149 / 2251799813685248)"
  "pooledSpend [1 / 25, 21 / 50, 1 / 25] = Num (9007199254740991 / 18014398509481984)"
  by code_simp+

lemma pooled_tests:
  "js_ge (pooledSpend [3 / 10, 3 / 10]) (Num (1 / 2))"
  "js_ge (pooledSpend [1 / 5, 1 / 5, 1 / 5]) (Num (1 / 2))"
  "\<not> js_ge (pooledSpend [1 / 25, 21 / 50, 1 / 25]) (Num (1 / 2))"
  by code_simp+

text \<open>
  C1, as the code has it. Under a threshold of 0.5 SOL the classifier rejects a transaction
  whose spend is below 0.5 SOL, so a transaction whose balance at index 0, an unsigned
  64-bit number of lamports, decreases by 0.3 SOL (300000000 lamports) never reaches the
  aggregator. When two signals of 0.3 SOL for the same token, from wallets \<open>A\<close> and \<open>B\<close>,
  are handed to \<open>processTransaction\<close> for a subscriber that requires two wallets, and the
  token has no window yet, the second signal sends one alert with both buyers and a total
  of 0.6 SOL and deletes the window; the next signal for the token opens a new window that
  holds that signal alone. The numbers are the program's: the doubles 0.3 and 0.6, and
  0.3 + 0.3 is 0.6 in doubles.
\<close>

theorem two_signals_of_03_alert:
  assumes sub: "userSettings t c = Some s" "requiredWallets s = 2" "solThreshold s = 1 / 2"
    and fresh: "recentTransactions t (c, X) = None"
    and wallets: "A \<noteq> B"
    and iA: "tokenAddress iA = X" "solAmount iA = Num (3 / 10)"
    and iB: "tokenAddress iB = X" "solAmount iB = Num (3 / 10)"
    and iC: "tokenAddress iC = X"
    and alive: "nA' - nA \<le> 3600000" "nC' - nC \<le> 3600000"
  shows "(meta body = Some m \<and> js_lt (netSolSpent m) (Num (1 / 2)) \<longrightarrow>
            fst (extractTokenInfoFromTx e (Some body) c w t) = None)
       \<and> (meta body = Some m \<and> preBalances m = Some (p # ps) \<and> postBalances m = Some (q # qs)
          \<and> p = q + 300000000 \<and> p < 2 ^ 64 \<longrightarrow>
            fst (extractTokenInfoFromTx e (Some body) c w t) = None)
       \<and> sentAlerts (ingestSignals e c [(A, iA, nA, nA')] t) = sentAlerts t
       \<and> sentAlerts (ingestSignals e c [(A, iA, nA, nA'), (B, iB, nB, nB')] t) =
           sentAlerts t @
             [\<lparr> alert_chatId = c, alert_tokenAddress = X, alert_tokenName = tokenName iB,
                alert_buyers = [(A, Num (dbl (3 / 10))), (B, Num (dbl (3 / 10)))],
                alert_totalSolSpent = Num (dbl (3 / 5)) \<rparr>]
       \<and> recentTransactions (ingestSignals e c [(A, iA, nA, nA'), (B, iB, nB, nB')] t) (c, X) = None
       \<and> recentTransactions
            (ingestSignals e c [(A, iA, nA, nA'), (B, iB, nB, nB'), (C, iC, nC, nC')] t) (c, X) =
           Some \<lparr> buyers = [(C, js_add (Num 0) (solAmount iC))], timestamp = nC, firstSeen = nC \<rparr>"
proof -
  define t1 where "t1 = processTransaction e [] c A None (Some iA) nA nA' t"
  define t2 where "t2 = processTransaction e [] c B None (Some iB) nB nB' t1"
  define t3 where "t3 = processTransaction e [] c C None (Some iC) nC nC' t2"
  let ?W1 = "\<lparr> buyers = [(A, Num (dbl (3 / 10)))], timestamp = nA, firstSeen = nA \<rparr>"
  let ?W2 = "\<lparr> buyers = [(A, Num (dbl (3 / 10))), (B, Num (dbl (3 / 10)))],
               timestamp = nA, firstSeen = nA \<rparr>"
  have rej: "meta body = Some m \<and> js_lt (netSolSpent m) (Num (1 / 2)) \<longrightarrow>
            fst (extractTokenInfoFromTx e (Some body) c w t) = None"
    using sub(1) by (auto simp: getUserSettings_known sub(3) intro!: extract_rejects)
  have rej03: "fst (extractTokenInfoFromTx e (Some body) c w t) = None"
    if b: "meta body = Some m" "preBalances m = Some (p # ps)" "postBalances m = Some (q # qs)"
      and d: "p = q + 300000000" "p < 2 ^ 64"
  proof -
    have "js_lt (netSolSpent m) (Num (1 / 2))"
      using spend_of_small_decrease [OF d(1) _ d(2)] netSolSpent_balances [OF b(2,3)] by simp
    with rej b(1) show ?thesis by simp
  qed
  have W1: "signalWindow t c A iA nA = ?W1"
    using fresh iA by (simp add: signalWindow_fresh stored_spends)
  have q1: "\<not> alertConditions s ?W1"
    using sub(2) by (simp add: alertConditions_def)
  have r1: "sentAlerts t1 = sentAlerts t" "recentTransactions t1 (c, X) = Some ?W1"
    "userSettings t1 c = Some s"
    using ingest_quiet[OF sub(1), of A iA nA nA' e "[]" None] W1 q1 alive(1) iA(1) sub(1)
    by (simp_all add: t1_def)
  have W2: "signalWindow t1 c B iB nB = ?W2"
    using r1(2) iB wallets
    by (simp add: signalWindow_open addBuyer_def previousAmount_def jsmap_get_def
          stored_spends)
  have "totalSolSpentOnToken ?W2 = pooledSpend [3 / 10, 3 / 10]"
    by (simp add: totalSolSpentOnToken_def pooledSpend_def stored_spends)
  then have tot: "totalSolSpentOnToken ?W2 = Num (dbl (3 / 5))"
    and ge: "js_ge (totalSolSpentOnToken ?W2) (Num (1 / 2))"
    using pooled_spends(1) pooled_tests(1) by simp_all
  have q2: "alertConditions s ?W2"
    using sub(2) ge by (simp add: alertConditions_def sub(3))
  have r2: "sentAlerts t2 = sentAlerts t @
             [\<lparr> alert_chatId = c, alert_tokenAddress = X, alert_tokenName = tokenName iB,
                alert_buyers = [(A, Num (dbl (3 / 10))), (B, Num (dbl (3 / 10)))],
                alert_totalSolSpent = Num (dbl (3 / 5)) \<rparr>]"
    "recentTransactions t2 (c, X) = None" "userSettings t2 c = Some s"
    using ingest_alert[OF r1(3), of B iB nB e "[]" None nB'] W2 q2 iB(1) r1 tot
    by (simp_all add: t2_def)
  have W3: "signalWindow t2 c C iC nC =
      \<lparr> buyers = [(C, js_add (Num 0) (solAmount iC))], timestamp = nC, firstSeen = nC \<rparr>"
    using r2(2) iC by (simp add: signalWindow_fresh)
  have q3: "\<not> alertConditions s (signalWindow t2 c C iC nC)"
    using sub(2) by (simp add: alertConditions_def W3)
  have r3: "recentTransactions t3 (c, X) =
      Some \<lparr> buyers = [(C, js_add (Num 0) (solAmount iC))], timestamp = nC, firstSeen = nC \<rparr>"
    using ingest_quiet(2)[OF r2(3) q3, of nC' e "[]" None] W3 alive(2) iC
    by (simp add: t3_def)
  show ?thesis
    using rej rej03 r1(1) r2(1,2) r3 by (simp add: t1_def t2_def t3_def)
qed

text \<open>
  The theorem at subscriber 7 with two required wallets: wallet \<open>A\<close>'s transaction with
  balances of 1000000000 and 700000000 lamports is rejected; for two signals the alert
  carries two buyers and the double 0.6, and wallet \<open>A\<close>'s next signal finds an empty
  window.
\<close>

theorem two_signals_of_03_alert_witness:
  "fst (extractTokenInfoFromTx (\<lambda>_. None) (Some (buysXFor03 ''A'')) 7 ''A'' twoRequired) = None
   \<and> sentAlerts (ingestSignals (\<lambda>_. None) 7
       [(''A'', buyOfX (3 / 10), 0, 0), (''B'', buyOfX (3 / 10), 900000, 900000)] twoRequired) =
     [\<lparr> alert_chatId = 7, alert_tokenAddress = ''X'', alert_tokenName = ''Unknown'',
        alert_buyers = [(''A'', Num (dbl (3 / 10))), (''B'', Num (dbl (3 / 10)))],
        alert_totalSolSpent = Num (dbl (3 / 5)) \<rparr>]
   \<and> recentTransactions (ingestSignals (\<lambda>_. None) 7
       [(''A'', buyOfX (3 / 10), 0, 0), (''B'', buyOfX (3 / 10), 900000, 900000),
        (''A'', buyOfX (3 / 10), 1000000, 1000000)] twoRequired) (7, ''X'') =
     Some \<lparr> buyers = [(''A'', Num (dbl (3 / 10)))], timestamp = 1000000, firstSeen = 1000000 \<rparr>"
proof -
  let ?s = "\<lparr> solThreshold = 1 / 2, requiredWallets = 2, wallets = 4, isPaused = False,
              lastProcessedSignatures = 1, userWallets = 2, monitoringStartTimes = 3 \<rparr>"
  let ?m = "\<lparr> preBalances = Some [1000000000], postBalances = Some [700000000],
              preTokenBalances = Some [],
              postTokenBalances =
                Some [\<lparr> owner = Some ''A'', mint = ''X'', uiAmount = Some 100 \<rparr>] \<rparr>"
  have sub: "userSettings twoRequired 7 = Some ?s"
    by (simp add: twoRequired_def setWalletCount_def getUserSettings_def newWalletTracker_def
          Let_def)
  have fresh: "recentTransactions twoRequired (7, ''X'') = None"
    by (simp add: twoRequired_def setWalletCount_def getUserSettings_def newWalletTracker_def
          Let_def)
  have none: "sentAlerts twoRequired = []"
    by (simp add: twoRequired_def setWalletCount_def getUserSettings_def newWalletTracker_def
          Let_def)
  have body: "meta (buysXFor03 ''A'') = Some ?m"
    by (simp add: buysXFor03_def)
  from two_signals_of_03_alert[where t = twoRequired and c = 7 and s = ?s and X = "''X''"
      and A = "''A''" and B = "''B''" and C = "''A''"
      and iA = "buyOfX (3 / 10)" and iB = "buyOfX (3 / 10)" and iC = "buyOfX (3 / 10)"
      and nA = 0 and nA' = 0 and nB = 900000 and nB' = 900000
      and nC = 1000000 and nC' = 1000000 and e = "\<lambda>_. None"
      and body = "buysXFor03 ''A''" and m = ?m and w = "''A''"
      and p = 1000000000 and ps = "[]" and q = 700000000 and qs = "[]"]
  show ?thesis
    using sub fresh none body by (simp add: buyOfX_def stored_spends)
qed

text \<open>
  C1 as stated fails: with a threshold of 0.5 SOL and two required wallets, the
  transactions of wallets \<open>A\<close> and \<open>B\<close>, each spending 0.3 SOL on \<open>X\<close>, 15 minutes apart,
  send no alert and open no window.
\<close>

theorem two_transactions_of_03_no_alert:
  "solThreshold (fst (getUserSettings 7 twoRequired)) = 1 / 2
   \<and> requiredWallets (fst (getUserSettings 7 twoRequired)) = 2
   \<and> sentAlerts afterTwoSmallBuys = []
   \<and> recentTransactions afterTwoSmallBuys (7, ''X'') = None"
  by (simp add: afterTwoSmallBuys_def twoRequired_def setWalletCount_def
        processTransaction_def extractTokenInfoFromTx_def getUserSettings_def
        newWalletTracker_def buysXFor03_def spent_buysXFor03 threshold_tests Let_def)

text \<open>
  C2, as the code has it. The cleanup at the end of every \<open>processTransaction\<close> that has a
  signal deletes exactly the windows whose \<open>timestamp\<close> lies more than an hour before the
  cleanup's clock reading. The \<open>timestamp\<close> is the time the window was created: adding a
  signal to a window does not change it. So a window of another token stays or goes by its
  age alone, and the signal's own window, when it sends no alert, stays or goes by its age
  as well, although it was updated in this very call; no window appears for another key.
\<close>

theorem cleanup_deletes_by_creation_time:
  "(k \<noteq> (chatId, tokenAddress info) \<and> recentTransactions t k = Some d \<longrightarrow>
      recentTransactions (processTransaction enrich sg chatId w txo (Some info) now0 now1 t) k =
        (if now1 - timestamp d > 3600000 then None else Some d))
   \<and> (k \<noteq> (chatId, tokenAddress info) \<and> recentTransactions t k = None \<longrightarrow>
      recentTransactions (processTransaction enrich sg chatId w txo (Some info) now0 now1 t) k =
        None)
   \<and> (recentTransactions t (chatId, tokenAddress info) = Some d' \<and>
      sentAlerts (processTransaction enrich sg chatId w txo (Some info) now0 now1 t) =
        sentAlerts t \<longrightarrow>
      timestamp (addBuyer d' w (solAmount info)) = timestamp d' \<and>
      recentTransactions (processTransaction enrich sg chatId w txo (Some info) now0 now1 t)
          (chatId, tokenAddress info) =
        (if now1 - timestamp d' > 3600000 then None
         else Some (addBuyer d' w (solAmount info))))"
  by (auto simp: processTransaction_windows processTransaction_alerts cleanup_apply
        signalWindow_open addBuyer_def)

text \<open>
  The theorem at the window of \<open>X\<close> that wallet \<open>A\<close> opened at time 0: wallet \<open>C\<close>'s
  signal for \<open>Y\<close>, one millisecond after the hour, deletes it.
\<close>

theorem cleanup_deletes_by_creation_time_witness:
  "recentTransactions afterFirstBuy (7, ''X'') =
     Some \<lparr> buyers = [(''A'', Num (3 / 4))], timestamp = 0, firstSeen = 0 \<rparr>
   \<and> recentTransactions
       (processTransaction (\<lambda>_. None) [] 7 ''C'' None (Some (buyOfY (3 / 4))) 3600001 3600001
          afterFirstBuy) (7, ''X'') = None"
proof -
  have w: "recentTransactions afterFirstBuy (7, ''X'') =
     Some \<lparr> buyers = [(''A'', Num (3 / 4))], timestamp = 0, firstSeen = 0 \<rparr>"
    by (simp add: afterFirstBuy_def buyOfX_def processTransaction_def Let_def
          getUserSettings_def newWalletTracker_def openWindow_def addBuyer_def
          previousAmount_def jsmap_get_def alertConditions_def cleanupOldEntries_def
          stored_spends)
  have k: "(7, ''X'') \<noteq> (7 :: int, tokenAddress (buyOfY (3 / 4)))"
    by (simp add: buyOfY_def)
  from cleanup_deletes_by_creation_time[of "(7, ''X'')" 7 "buyOfY (3 / 4)" afterFirstBuy
      "\<lparr> buyers = [(''A'', Num (3 / 4))], timestamp = 0, firstSeen = 0 \<rparr>"
      "\<lambda>_. None" "[]" "''C''" None 3600001 3600001]
  show ?thesis using w k by simp
qed

text \<open>
  C2 as stated fails: the window of \<open>X\<close> received wallet \<open>B\<close>'s signal 50 minutes after it
  was opened, and the cleanup of a call ten minutes later deletes it, with no alert sent.
\<close>

theorem recently_updated_window_deleted:
  "recentTransactions afterSecondBuy (7, ''X'') =
     Some \<lparr> buyers = [(''A'', Num (3 / 4)), (''B'', Num (3 / 4))], timestamp = 0, firstSeen = 0 \<rparr>
   \<and> recentTransactions afterOtherBuy (7, ''X'') = None
   \<and> sentAlerts afterOtherBuy = []"
  by (simp add: afterOtherBuy_def afterSecondBuy_def afterFirstBuy_def buyOfX_def buyOfY_def
        processTransaction_def Let_def getUserSettings_def newWalletTracker_def openWindow_def
        addBuyer_def previousAmount_def jsmap_get_def alertConditions_def
        totalSolSpentOnToken_def sendAlert_def cleanupOldEntries_def stored_spends)

text \<open>
  C3, as the code has it. For a subscriber with \<open>requiredWallets = 3\<close> and
  \<open>solThreshold = 0.5\<close> and a token that has no window yet: when three signals for the
  token come from three distinct wallets, the total of their spends as the program adds
  them, in doubles, is at least 0.5 SOL, and the cleanups of the first two calls run no
  later than an hour after the first call has created the window, the first two calls send
  nothing and the third sends one alert with the token, the three wallets' spends and
  their total, and deletes the window; a fourth signal then opens a new window that holds
  that signal alone. A call sends an alert exactly when the window it has updated has at
  least \<open>requiredWallets\<close> buyers and a total of at least \<open>solThreshold\<close>.
\<close>

theorem three_buyers_one_alert:
  assumes sub: "userSettings t c = Some s" "requiredWallets s = 3" "solThreshold s = 1 / 2"
    and fresh: "recentTransactions t (c, X) = None"
    and wallets: "wA \<noteq> wB" "wA \<noteq> wC" "wB \<noteq> wC"
    and spend: "js_ge (pooledSpend [spentA, spentB, spentC]) (Num (1 / 2))"
    and infoA: "tokenAddress infoA = X" "solAmount infoA = Num spentA"
    and infoB: "tokenAddress infoB = X" "solAmount infoB = Num spentB"
    and infoC: "tokenAddress infoC = X" "solAmount infoC = Num spentC"
    and infoD: "tokenAddress infoD = X"
    and alive: "nowA' - nowA \<le> 3600000" "nowB' - nowA \<le> 3600000" "nowD' - nowD \<le> 3600000"
  shows "sentAlerts (ingestSignals e c [(wA, infoA, nowA, nowA')] t) = sentAlerts t
       \<and> sentAlerts (ingestSignals e c [(wA, infoA, nowA, nowA'), (wB, infoB, nowB, nowB')] t) =
           sentAlerts t
       \<and> sentAlerts (ingestSignals e c
            [(wA, infoA, nowA, nowA'), (wB, infoB, nowB, nowB'), (wC, infoC, nowC, nowC')] t) =
           sentAlerts t @
             [\<lparr> alert_chatId = c, alert_tokenAddress = X, alert_tokenName = tokenName infoC,
                alert_buyers = [(wA, js_add (Num 0) (Num spentA)),
                                (wB, js_add (Num 0) (Num spentB)),
                                (wC, js_add (Num 0) (Num spentC))],
                alert_totalSolSpent = pooledSpend [spentA, spentB, spentC] \<rparr>]
       \<and> recentTransactions (ingestSignals e c
            [(wA, infoA, nowA, nowA'), (wB, infoB, nowB, nowB'), (wC, infoC, nowC, nowC')] t)
            (c, X) = None
       \<and> recentTransactions (ingestSignals e c
            [(wA, infoA, nowA, nowA'), (wB, infoB, nowB, nowB'), (wC, infoC, nowC, nowC'),
             (wD, infoD, nowD, nowD')] t) (c, X) =
           Some \<lparr> buyers = [(wD, js_add (Num 0) (solAmount infoD))], timestamp = nowD,
                  firstSeen = nowD \<rparr>
       \<and> (sentAlerts (processTransaction e g cZ wZ xZ (Some infoZ) nowZ nowZ' tZ) \<noteq> sentAlerts tZ) =
           (int (length (buyers (signalWindow tZ cZ wZ infoZ nowZ)))
              \<ge> requiredWallets (fst (getUserSettings cZ tZ))
            \<and> js_ge (totalSolSpentOnToken (signalWindow tZ cZ wZ infoZ nowZ))
                  (Num (solThreshold (fst (getUserSettings cZ tZ)))))"
proof -
  define t1 where "t1 = processTransaction e [] c wA None (Some infoA) nowA nowA' t"
  define t2 where "t2 = processTransaction e [] c wB None (Some infoB) nowB nowB' t1"
  define t3 where "t3 = processTransaction e [] c wC None (Some infoC) nowC nowC' t2"
  define t4 where "t4 = processTransaction e [] c wD None (Some infoD) nowD nowD' t3"
  let ?a = "js_add (Num 0) (Num spentA)"
  let ?b = "js_add (Num 0) (Num spentB)"
  let ?c = "js_add (Num 0) (Num spentC)"
  let ?W1 = "\<lparr> buyers = [(wA, ?a)], timestamp = nowA, firstSeen = nowA \<rparr>"
  let ?W2 = "\<lparr> buyers = [(wA, ?a), (wB, ?b)], timestamp = nowA, firstSeen = nowA \<rparr>"
  let ?W3 = "\<lparr> buyers = [(wA, ?a), (wB, ?b), (wC, ?c)], timestamp = nowA, firstSeen = nowA \<rparr>"
  have W1: "signalWindow t c wA infoA nowA = ?W1"
    using fresh infoA by (simp add: signalWindow_fresh)
  have q1: "\<not> alertConditions s ?W1"
    using sub(2) by (simp add: alertConditions_def)
  have r1: "sentAlerts t1 = sentAlerts t" "recentTransactions t1 (c, X) = Some ?W1"
    "userSettings t1 c = Some s"
    using ingest_quiet[OF sub(1), of wA infoA nowA nowA' e "[]" None] W1 q1 alive(1) infoA(1)
      sub(1)
    by (simp_all add: t1_def)
  have W2: "signalWindow t1 c wB infoB nowB = ?W2"
    using r1(2) infoB wallets
    by (simp add: signalWindow_open addBuyer_def previousAmount_def jsmap_get_def)
  have q2: "\<not> alertConditions s ?W2"
    using sub(2) by (simp add: alertConditions_def)
  have r2: "sentAlerts t2 = sentAlerts t" "recentTransactions t2 (c, X) = Some ?W2"
    "userSettings t2 c = Some s"
    using ingest_quiet[OF r1(3), of wB infoB nowB nowB' e "[]" None] W2 q2 alive(2) infoB(1) r1
    by (simp_all add: t2_def)
  have W3: "signalWindow t2 c wC infoC nowC = ?W3"
    using r2(2) infoC wallets
    by (simp add: signalWindow_open addBuyer_def previousAmount_def jsmap_get_def)
  have tot: "totalSolSpentOnToken ?W3 = pooledSpend [spentA, spentB, spentC]"
    by (simp add: totalSolSpentOnToken_def pooledSpend_def)
  have q3: "alertConditions s ?W3"
    using sub(2) spend by (simp add: alertConditions_def tot sub(3))
  have r3: "sentAlerts t3 = sentAlerts t @
             [\<lparr> alert_chatId = c, alert_tokenAddress = X, alert_tokenName = tokenName infoC,
                alert_buyers = [(wA, ?a), (wB, ?b), (wC, ?c)],
                alert_totalSolSpent = pooledSpend [spentA, spentB, spentC] \<rparr>]"
    "recentTransactions t3 (c, X) = None" "userSettings t3 c = Some s"
    using ingest_alert[OF r2(3), of wC infoC nowC e "[]" None nowC'] W3 q3 infoC(1) r2 tot
    by (simp_all add: t3_def)
  have W4: "signalWindow t3 c wD infoD nowD =
      \<lparr> buyers = [(wD, js_add (Num 0) (solAmount infoD))], timestamp = nowD, firstSeen = nowD \<rparr>"
    using r3(2) infoD by (simp add: signalWindow_fresh)
  have q4: "\<not> alertConditions s (signalWindow t3 c wD infoD nowD)"
    using sub(2) by (simp add: alertConditions_def W4)
  have r4: "recentTransactions t4 (c, X) =
      Some \<lparr> buyers = [(wD, js_add (Num 0) (solAmount infoD))], timestamp = nowD,
             firstSeen = nowD \<rparr>"
    using ingest_quiet(2)[OF r3(3) q4, of nowD' e "[]" None] W4 alive(3) infoD
    by (simp add: t4_def)
  have fires: "(sentAlerts (processTransaction e g cZ wZ xZ (Some infoZ) nowZ nowZ' tZ) \<noteq> sentAlerts tZ) =
           (int (length (buyers (signalWindow tZ cZ wZ infoZ nowZ)))
              \<ge> requiredWallets (fst (getUserSettings cZ tZ))
            \<and> js_ge (totalSolSpentOnToken (signalWindow tZ cZ wZ infoZ nowZ))
                  (Num (solThreshold (fst (getUserSettings cZ tZ)))))"
    by (simp add: processTransaction_alerts alertConditions_def)
  show ?thesis
    using r1(1) r2(1) r3(1,2) r4 fires by (simp add: t1_def t2_def t3_def t4_def)
qed

text \<open>
  The theorem at subscriber 7 with the default settings and three buys of 0.2 SOL within
  half an hour: the alert's total is the program's 0.2 + 0.2 + 0.2, the double
  0.6000000000000001.
\<close>

theorem three_buyers_one_alert_witness:
  "sentAlerts (ingestSignals (\<lambda>_. None) 7
       [(''A'', buyOfX (1 / 5), 0, 0), (''B'', buyOfX (1 / 5), 900000, 900000),
        (''C'', buyOfX (1 / 5), 1800000, 1800000)] subscribed) =
     [\<lparr> alert_chatId = 7, alert_tokenAddress = ''X'', alert_tokenName = ''Unknown'',
        alert_buyers = [(''A'', Num (dbl (1 / 5))), (''B'', Num (dbl (1 / 5))),
                        (''C'', Num (dbl (1 / 5)))],
        alert_totalSolSpent = Num (1351079888211149 / 2251799813685248) \<rparr>]
   \<and> recentTransactions (ingestSignals (\<lambda>_. None) 7
       [(''A'', buyOfX (1 / 5), 0, 0), (''B'', buyOfX (1 / 5), 900000, 900000),
        (''C'', buyOfX (1 / 5), 1800000, 1800000)] subscribed) (7, ''X'') = None"
proof -
  let ?s = "\<lparr> solThreshold = 1 / 2, requiredWallets = 3, wallets = 4, isPaused = False,
              lastProcessedSignatures = 1, userWallets = 2, monitoringStartTimes = 3 \<rparr>"
  have sub: "userSettings subscribed 7 = Some ?s"
    by (simp add: subscribed_def getUserSettings_def newWalletTracker_def Let_def)
  have fresh: "recentTransactions subscribed (7, ''X'') = None"
    by (simp add: subscribed_def getUserSettings_def newWalletTracker_def Let_def)
  have none: "sentAlerts subscribed = []"
    by (simp add: subscribed_def getUserSettings_def newWalletTracker_def Let_def)
  from three_buyers_one_alert[where t = subscribed and c = 7 and s = ?s and X = "''X''"
      and wA = "''A''" and wB = "''B''" and wC = "''C''" and wD = "''A''"
      and spentA = "1 / 5" and spentB = "1 / 5" and spentC = "1 / 5"
      and infoA = "buyOfX (1 / 5)" and infoB = "buyOfX (1 / 5)" and infoC = "buyOfX (1 / 5)"
      and infoD = "buyOfX (1 / 5)" and nowA = 0 and nowA' = 0 and nowB = 900000
      and nowB' = 900000 and nowC = 1800000 and nowC' = 1800000 and nowD = 0 and nowD' = 0
      and e = "\<lambda>_. None"]
  show ?thesis
    using sub fresh none pooled_tests(2)
    by (simp add: buyOfX_def stored_spends pooled_spends)
qed

text \<open>
  C3 as stated fails, in two ways. Three distinct wallets buy \<open>X\<close> for 0.2 SOL each, the
  second and the third more than an hour after the first, and no alert is sent. And three
  distinct wallets buy \<open>X\<close> within twenty minutes for 0.04, 0.42 and 0.04 SOL, which is
  0.5 SOL, and no alert is sent: the program's total is 0.49999999999999994.
\<close>

theorem three_slow_buyers_no_alert:
  "(1 / 5 :: rat) + 1 / 5 + 1 / 5 \<ge> 1 / 2
   \<and> sentAlerts afterSlowBuys = []
   \<and> (1 / 25 :: rat) + 21 / 50 + 1 / 25 = 1 / 2
   \<and> pooledSpend [1 / 25, 21 / 50, 1 / 25] = Num (9007199254740991 / 18014398509481984)
   \<and> sentAlerts afterBuysOfHalf = []"
proof -
  have slow: "sentAlerts afterSlowBuys = []"
    by (simp add: afterSlowBuys_def buyOfX_def processTransaction_def Let_def
          getUserSettings_def newWalletTracker_def openWindow_def addBuyer_def
          previousAmount_def jsmap_get_def alertConditions_def totalSolSpentOnToken_def
          sendAlert_def cleanupOldEntries_def)
  have "\<not> js_ge (foldl js_add (Num 0)
            [js_add (Num 0) (Num (1 / 25)), js_add (Num 0) (Num (21 / 50)),
             js_add (Num 0) (Num (1 / 25))]) (Num (1 / 2))"
    using pooled_tests(3) by (simp add: pooledSpend_def)
  then have half: "sentAlerts afterBuysOfHalf = []"
    by (simp add: afterBuysOfHalf_def buyOfX_def processTransaction_def Let_def
          getUserSettings_def newWalletTracker_def openWindow_def addBuyer_def
          previousAmount_def jsmap_get_def alertConditions_def totalSolSpentOnToken_def
          sendAlert_def cleanupOldEntries_def)
  show ?thesis
    using slow half pooled_spends(3) by simp
qed

section \<open>Properties of the endpoint pool and the retrying caller\<close>

lemma rotate_ok:
  assumes "rpcEndpoints r \<noteq> []" and "\<forall>u\<in>set (rpcEndpoints r). connect u"
  shows "rotateRpcEndpoint connect now r =
     Inr (r\<lparr> currentRpcIndex := (currentRpcIndex r + 1) mod length (rpcEndpoints r),
             connection := rpcEndpoints r ! ((currentRpcIndex r + 1) mod length (rpcEndpoints r)),
             rateLimitCount := 0, lastRotation := now,
             totalRotations := totalRotations r + 1 \<rparr>)"
proof -
  have "(currentRpcIndex r + 1) mod length (rpcEndpoints r) < length (rpcEndpoints r)"
    using assms(1) by simp
  then have "connect (rpcEndpoints r ! ((currentRpcIndex r + 1) mod length (rpcEndpoints r)))"
    using assms(2) nth_mem by blast
  then show ?thesis using assms(1) by (simp add: rotateRpcEndpoint_def Let_def)
qed

lemma strike:
  assumes "rpcEndpoints r \<noteq> []" and "\<forall>u\<in>set (rpcEndpoints r). connect u"
    and "rateLimitCount r < 3"
  shows "\<exists>r'. afterRateLimit connect now r = Inr r' \<and>
     rateLimitCount r' = (if rateLimitCount r = 2 then 0 else rateLimitCount r + 1) \<and>
     totalRotations r' =
       (if rateLimitCount r = 2 then totalRotations r + 1 else totalRotations r) \<and>
     currentRpcIndex r' =
       (if rateLimitCount r = 2 then (currentRpcIndex r + 1) mod length (rpcEndpoints r)
        else currentRpcIndex r) \<and>
     rpcEndpoints r' = rpcEndpoints r"
proof (cases "rateLimitCount r = 2")
  case True
  have "rpcEndpoints (r\<lparr>rateLimitCount := rateLimitCount r + 1\<rparr>) \<noteq> []"
    "\<forall>u\<in>set (rpcEndpoints (r\<lparr>rateLimitCount := rateLimitCount r + 1\<rparr>)). connect u"
    using assms by simp_all
  from rotate_ok[OF this, of now] True show ?thesis
    by (simp add: afterRateLimit_def Let_def)
next
  case False
  with assms(3) show ?thesis by (simp add: afterRateLimit_def Let_def)
qed

lemma retry_step:
  assumes "api k = Inl RateLimited" and "int k < maxRetries"
    and "afterRateLimit connect (clock k) (r\<lparr>totalRequests := totalRequests r + 1\<rparr>) = Inr r'"
  shows "callWithBackoffFrom connect clock api maxRetries k r =
         callWithBackoffFrom connect clock api maxRetries (k + 1) r'"
  using assms by (subst callWithBackoffFrom.simps) (simp add: Let_def)

lemma last_step:
  assumes "int k = maxRetries"
  shows "snd (callWithBackoffFrom connect clock api maxRetries k r) =
         r\<lparr>totalRequests := totalRequests r + 1\<rparr>"
  using assms by (subst callWithBackoffFrom.simps) (simp add: Let_def split: sum.splits)

text \<open>
  The strike counter is 0 after the constructor, and a call keeps it below 3 as long as
  every endpoint of the pool accepts a connection.
\<close>

lemma strikes_stay_below_three:
  "rpcEndpoints r \<noteq> [] \<Longrightarrow> \<forall>u\<in>set (rpcEndpoints r). connect u \<Longrightarrow> rateLimitCount r < 3 \<Longrightarrow>
   rateLimitCount (snd (callWithBackoffFrom connect clock api maxRetries k r)) < 3
   \<and> rpcEndpoints (snd (callWithBackoffFrom connect clock api maxRetries k r)) = rpcEndpoints r"
proof (induction connect clock api maxRetries k r rule: callWithBackoffFrom.induct)
  case (1 connect clock api maxRetries retries r)
  let ?r1 = "r\<lparr>totalRequests := totalRequests r + 1\<rparr>"
  show ?case
  proof (cases "int retries \<le> maxRetries")
    case False
    with "1.prems" show ?thesis
      by (subst (1 2) callWithBackoffFrom.simps) simp
  next
    case le: True
    show ?thesis
    proof (cases "api retries")
      case (Inr v)
      with le "1.prems" show ?thesis
        by (subst (1 2) callWithBackoffFrom.simps) (simp add: Let_def)
    next
      case (Inl err)
      show ?thesis
      proof (cases "err = RateLimited \<and> int retries < maxRetries")
        case False
        with Inl le "1.prems" show ?thesis
          by (subst (1 2) callWithBackoffFrom.simps) (auto simp: Let_def)
      next
        case True
        from strike[of ?r1 connect "clock retries"] "1.prems"
        obtain r3 where r3: "afterRateLimit connect (clock retries) ?r1 = Inr r3"
          "rateLimitCount r3 < 3" "rpcEndpoints r3 = rpcEndpoints r"
          by (auto split: if_splits)
        have "rateLimitCount (snd (callWithBackoffFrom connect clock api maxRetries (retries + 1) r3)) < 3
          \<and> rpcEndpoints (snd (callWithBackoffFrom connect clock api maxRetries (retries + 1) r3)) =
            rpcEndpoints r3"
          using "1.IH"[OF le refl Inl True r3(1)] r3(2,3) "1.prems" by simp
        with True Inl le r3 show ?thesis
          by (subst (1 2) callWithBackoffFrom.simps) (simp add: Let_def)
      qed
    qed
  qed
qed

text \<open>
  C7, as the code has it. A rotation advances the active index by one modulo the pool's
  length; when \<open>new Connection\<close> accepts the endpoint at that index, it also sets the strike
  counter to 0 and adds one to \<open>totalRotations\<close>, and when \<open>new Connection\<close> throws, the
  strike counter, \<open>totalRotations\<close> and the connection stay as they were. In a pool that is
  not empty and whose endpoints all accept a connection, with fewer than three strikes
  counted before the call: when the first three attempts of \<open>callWithBackoff\<close> (with its
  default of three retries) fail with a rate-limit error, the call rotates the endpoint
  exactly once, whatever the fourth attempt does.
\<close>

theorem three_rate_limits_one_rotation:
  assumes pool: "rpcEndpoints r \<noteq> []"
    and conn: "\<forall>u\<in>set (rpcEndpoints r). connect u"
    and strikes: "rateLimitCount r < 3"
    and fails: "api 0 = Inl RateLimited" "api 1 = Inl RateLimited" "api 2 = Inl RateLimited"
  shows "totalRotations (snd (callWithBackoff connect clock api 3 r)) = totalRotations r + 1
       \<and> currentRpcIndex (snd (callWithBackoff connect clock api 3 r)) =
           (currentRpcIndex r + 1) mod length (rpcEndpoints r)
       \<and> (\<exists>r'. rotateRpcEndpoint connect now r = Inr r'
             \<and> currentRpcIndex r' = (currentRpcIndex r + 1) mod length (rpcEndpoints r)
             \<and> rateLimitCount r' = 0
             \<and> totalRotations r' = totalRotations r + 1)
       \<and> (rpcEndpoints p \<noteq> [] \<longrightarrow>
            rotateRpcEndpoint accepts now p =
              Inr (if accepts
                        (rpcEndpoints p ! ((currentRpcIndex p + 1) mod length (rpcEndpoints p)))
                   then p\<lparr> currentRpcIndex :=
                             (currentRpcIndex p + 1) mod length (rpcEndpoints p),
                           connection :=
                             rpcEndpoints p !
                               ((currentRpcIndex p + 1) mod length (rpcEndpoints p)),
                           rateLimitCount := 0, lastRotation := now,
                           totalRotations := totalRotations p + 1 \<rparr>
                   else p\<lparr> currentRpcIndex :=
                             (currentRpcIndex p + 1) mod length (rpcEndpoints p) \<rparr>))"
proof -
  let ?req = "\<lambda>x. x\<lparr>totalRequests := totalRequests x + 1\<rparr>"
  let ?n = "length (rpcEndpoints r)"
  obtain r1 where r1: "afterRateLimit connect (clock 0) (?req r) = Inr r1"
    "rateLimitCount r1 = (if rateLimitCount r = 2 then 0 else rateLimitCount r + 1)"
    "totalRotations r1 = (if rateLimitCount r = 2 then totalRotations r + 1 else totalRotations r)"
    "currentRpcIndex r1 =
       (if rateLimitCount r = 2 then (currentRpcIndex r + 1) mod ?n else currentRpcIndex r)"
    "rpcEndpoints r1 = rpcEndpoints r"
    using strike[of "?req r" connect "clock 0"] pool conn strikes by auto
  have s1: "rateLimitCount r1 < 3"
    using r1(2) strikes by (simp split: if_splits)
  obtain r2 where r2: "afterRateLimit connect (clock 1) (?req r1) = Inr r2"
    "rateLimitCount r2 = (if rateLimitCount r1 = 2 then 0 else rateLimitCount r1 + 1)"
    "totalRotations r2 =
       (if rateLimitCount r1 = 2 then totalRotations r1 + 1 else totalRotations r1)"
    "currentRpcIndex r2 =
       (if rateLimitCount r1 = 2 then (currentRpcIndex r1 + 1) mod ?n else currentRpcIndex r1)"
    "rpcEndpoints r2 = rpcEndpoints r"
    using strike[of "?req r1" connect "clock 1"] pool conn s1 r1(5) by auto
  have s2: "rateLimitCount r2 < 3"
    using r2(2) s1 by (simp split: if_splits)
  obtain r3 where r3: "afterRateLimit connect (clock 2) (?req r2) = Inr r3"
    "rateLimitCount r3 = (if rateLimitCount r2 = 2 then 0 else rateLimitCount r2 + 1)"
    "totalRotations r3 =
       (if rateLimitCount r2 = 2 then totalRotations r2 + 1 else totalRotations r2)"
    "currentRpcIndex r3 =
       (if rateLimitCount r2 = 2 then (currentRpcIndex r2 + 1) mod ?n else currentRpcIndex r2)"
    "rpcEndpoints r3 = rpcEndpoints r"
    using strike[of "?req r2" connect "clock 2"] pool conn s2 r2(5) by auto
  have "callWithBackoff connect clock api 3 r = callWithBackoffFrom connect clock api 3 0 r"
    by (simp add: callWithBackoff_def)
  also have "\<dots> = callWithBackoffFrom connect clock api 3 1 r1"
    using retry_step[of api 0 3 connect clock r r1] fails(1) r1(1) by simp
  also have "\<dots> = callWithBackoffFrom connect clock api 3 2 r2"
    using retry_step[of api 1 3 connect clock r1 r2] fails(2) r2(1)
    by (simp add: numeral_2_eq_2)
  also have "\<dots> = callWithBackoffFrom connect clock api 3 3 r3"
    using retry_step[of api 2 3 connect clock r2 r3] fails(3) r3(1)
    by (simp add: numeral_2_eq_2 numeral_3_eq_3)
  finally have "callWithBackoff connect clock api 3 r =
      callWithBackoffFrom connect clock api 3 3 r3" .
  then have fin: "snd (callWithBackoff connect clock api 3 r) = ?req r3"
    using last_step[of 3 3 connect clock api r3] by simp
  have cases: "rateLimitCount r = 0 \<or> rateLimitCount r = 1 \<or> rateLimitCount r = 2"
    using strikes by arith
  have rot: "totalRotations r3 = totalRotations r + 1"
    using cases r1(2,3) r2(2,3) r3(3) by (elim disjE) simp_all
  have idx: "currentRpcIndex r3 = (currentRpcIndex r + 1) mod ?n"
    using cases r1(2,4) r2(2,4) r3(4) by (elim disjE) simp_all
  have any: "rpcEndpoints p \<noteq> [] \<longrightarrow>
      rotateRpcEndpoint accepts now p =
        Inr (if accepts (rpcEndpoints p ! ((currentRpcIndex p + 1) mod length (rpcEndpoints p)))
             then p\<lparr> currentRpcIndex := (currentRpcIndex p + 1) mod length (rpcEndpoints p),
                     connection :=
                       rpcEndpoints p ! ((currentRpcIndex p + 1) mod length (rpcEndpoints p)),
                     rateLimitCount := 0, lastRotation := now,
                     totalRotations := totalRotations p + 1 \<rparr>
             else p\<lparr> currentRpcIndex :=
                       (currentRpcIndex p + 1) mod length (rpcEndpoints p) \<rparr>)"
    by (simp add: rotateRpcEndpoint_def Let_def)
  from rotate_ok[OF pool conn, of now] rot idx fin any show ?thesis by simp
qed

text \<open>
  The theorem at a pool of three endpoints with the last one active: the index wraps to 0.
  A rotation to an endpoint that \<open>new Connection\<close> refuses advances the index only.
\<close>

theorem three_rate_limits_one_rotation_witness:
  "totalRotations (snd (callWithBackoff (\<lambda>_. True) (\<lambda>_. 0) alwaysLimited 3 poolOfThree)) = 5
   \<and> currentRpcIndex (snd (callWithBackoff (\<lambda>_. True) (\<lambda>_. 0) alwaysLimited 3 poolOfThree)) = 0
   \<and> (\<exists>r'. rotateRpcEndpoint (\<lambda>_. True) 0 poolOfThree = Inr r' \<and> currentRpcIndex r' = 0
         \<and> rateLimitCount r' = 0 \<and> totalRotations r' = 5)
   \<and> rotateRpcEndpoint startsWithHttp 0 poolWithBadUrl =
       Inr (poolWithBadUrl\<lparr> currentRpcIndex := 1 \<rparr>)"
  using three_rate_limits_one_rotation[where r = poolOfThree and connect = "\<lambda>_. True"
      and api = alwaysLimited and clock = "\<lambda>_. 0" and now = 0 and p = poolWithBadUrl
      and accepts = startsWithHttp]
  by (simp add: poolOfThree_def alwaysLimited_def poolWithBadUrl_def startsWithHttp_def)

text \<open>
  C7 as stated fails: the second endpoint of the pool is not an HTTP address, no strike is
  counted before the call, and the attempts of the call all fail with a rate-limit error.
  The third failure calls \<open>rotateRpcEndpoint\<close>, which advances the index to 1 and fails to
  connect: the strike counter is left at 3, \<open>totalRotations\<close> at 0 and the connection at
  the first endpoint.
\<close>

theorem failed_connection_no_rotation:
  "rateLimitCount poolWithBadUrl = 0
   \<and> alwaysLimited 0 = Inl RateLimited \<and> alwaysLimited 1 = Inl RateLimited
   \<and> alwaysLimited 2 = Inl RateLimited
   \<and> snd (callWithBackoff startsWithHttp (\<lambda>_. 0) alwaysLimited 3 poolWithBadUrl) =
       \<lparr> rpcEndpoints = [''https://a'', ''ftp://b''], currentRpcIndex = 1,
         connection = ''https://a'', rateLimitCount = 3, totalRequests = 4,
         totalRotations = 0, lastRotation = 0 \<rparr>"
proof -
  let ?call = "callWithBackoffFrom startsWithHttp (\<lambda>_. 0) alwaysLimited 3"
  have "callWithBackoff startsWithHttp (\<lambda>_. 0) alwaysLimited 3 poolWithBadUrl =
      ?call 0 poolWithBadUrl"
    by (simp add: callWithBackoff_def)
  also have "\<dots> = ?call 1 (poolWithBadUrl\<lparr> rateLimitCount := 1, totalRequests := 1 \<rparr>)"
    using retry_step[of alwaysLimited 0 3 startsWithHttp "\<lambda>_. 0" poolWithBadUrl
        "poolWithBadUrl\<lparr> rateLimitCount := 1, totalRequests := 1 \<rparr>"]
    by (simp add: alwaysLimited_def afterRateLimit_def poolWithBadUrl_def Let_def)
  also have "\<dots> = ?call 2 (poolWithBadUrl\<lparr> rateLimitCount := 2, totalRequests := 2 \<rparr>)"
    using retry_step[of alwaysLimited 1 3 startsWithHttp "\<lambda>_. 0"
        "poolWithBadUrl\<lparr> rateLimitCount := 1, totalRequests := 1 \<rparr>"
        "poolWithBadUrl\<lparr> rateLimitCount := 2, totalRequests := 2 \<rparr>"]
    by (simp add: alwaysLimited_def afterRateLimit_def poolWithBadUrl_def Let_def
          numeral_2_eq_2)
  also have "\<dots> = ?call 3 (poolWithBadUrl\<lparr> rateLimitCount := 3, totalRequests := 3,
                                             currentRpcIndex := 1 \<rparr>)"
    using retry_step[of alwaysLimited 2 3 startsWithHttp "\<lambda>_. 0"
        "poolWithBadUrl\<lparr> rateLimitCount := 2, totalRequests := 2 \<rparr>"
        "poolWithBadUrl\<lparr> rateLimitCount := 3, totalRequests := 3, currentRpcIndex := 1 \<rparr>"]
    by (simp add: alwaysLimited_def afterRateLimit_def rotateRpcEndpoint_def
          poolWithBadUrl_def startsWithHttp_def Let_def numeral_2_eq_2 numeral_3_eq_3)
  finally have "snd (callWithBackoff startsWithHttp (\<lambda>_. 0) alwaysLimited 3 poolWithBadUrl) =
      poolWithBadUrl\<lparr> rateLimitCount := 3, totalRequests := 4, currentRpcIndex := 1 \<rparr>"
    using last_step[of 3 3 startsWithHttp "\<lambda>_. 0" alwaysLimited
        "poolWithBadUrl\<lparr> rateLimitCount := 3, totalRequests := 3, currentRpcIndex := 1 \<rparr>"]
    by simp
  then show ?thesis
    by (simp add: poolWithBadUrl_def alwaysLimited_def)
qed

section \<open>Properties of the wallet poller\<close>

lemma extract_keeps_state:
  "userSettings t c = Some s \<Longrightarrow> snd (extractTokenInfoFromTx e txo c w t) = t"
  by (auto simp: extractTokenInfoFromTx_def getUserSettings_known Let_def
        split: option.splits prod.splits)

lemma processTransaction_keeps_cursors:
  assumes "userSettings t c = Some s"
  shows "userSettings (processTransaction e sg c w txo info now0 now1 t) = userSettings t
       \<and> strMaps (processTransaction e sg c w txo info now0 now1 t) = strMaps t"
proof (cases info)
  case (Some i)
  with assms show ?thesis
    by (simp add: processTransaction_def Let_def getUserSettings_known sendAlert_def)
next
  case None
  obtain found where f: "extractTokenInfoFromTx e txo c w t = (found, t)"
    using extract_keeps_state[OF assms, of e txo w]
    by (cases "extractTokenInfoFromTx e txo c w t") simp
  show ?thesis
    using None f assms
    by (cases found)
       (simp_all add: processTransaction_def Let_def getUserSettings_known sendAlert_def)
qed

lemma processNewSignatures_keeps_cursors:
  "userSettings t c = Some s \<Longrightarrow>
   userSettings (snd (processNewSignatures e getTx clock c a mst sgs t)) = userSettings t
   \<and> strMaps (snd (processNewSignatures e getTx clock c a mst sgs t)) = strMaps t"
proof (induction sgs arbitrary: t)
  case Nil
  then show ?case by simp
next
  case (Cons sg sgs)
  show ?case
  proof (cases "tooOld sg mst")
    case True
    with Cons show ?thesis by simp
  next
    case False
    show ?thesis
    proof (cases "getTx (signature sg)")
      case (Inl err)
      with False Cons show ?thesis by (simp add: split_beta Let_def)
    next
      case (Inr found)
      show ?thesis
      proof (cases found)
        case None
        with Inr False Cons show ?thesis by (simp add: split_beta Let_def)
      next
        case (Some body)
        obtain info where x: "extractTokenInfoFromTx e (Some body) c a t = (info, t)"
          using extract_keeps_state[OF Cons.prems, of e "Some body" a]
          by (cases "extractTokenInfoFromTx e (Some body) c a t") simp
        show ?thesis
        proof (cases "isBuy info")
          case True
          let ?t2 = "processTransaction e (signature sg) c a (Some body) info
                       (fst (clock (signature sg))) (snd (clock (signature sg))) t"
          have k: "userSettings ?t2 = userSettings t \<and> strMaps ?t2 = strMaps t"
            using processTransaction_keeps_cursors[OF Cons.prems] by blast
          then have "userSettings ?t2 c = Some s" using Cons.prems by simp
          from Cons.IH[OF this] k True Some Inr False x show ?thesis
            by (simp add: split_beta Let_def)
        next
          case no: False
          with Some Inr False x Cons show ?thesis by (simp add: split_beta Let_def)
        qed
      qed
    qed
  qed
qed

lemma processNewSignatures_events:
  "ev \<in> set (fst (processNewSignatures e getTx clock c a mst sgs t)) \<Longrightarrow>
   \<exists>g. ev = BodyFetched g \<or> ev = SignalEmitted g"
proof (induction sgs arbitrary: t)
  case Nil
  then show ?case by simp
next
  case (Cons sg sgs)
  then show ?case
    by (auto simp: split_beta Let_def split: if_splits sum.splits option.splits)
qed

text \<open>
  C8. A tick runs for a subscriber whose settings object exists. When the subscriber is
  not paused and the newest fetched signature is not the cursor, the tick's first action
  is to set the cursor to the newest fetched signature; everything that follows is a fetch
  of a body or a hand-over to \<open>processTransaction\<close>, and the cursor still is the newest
  signature when the tick ends. When the fetched list starts with the cursor, the tick does
  nothing and leaves the state as it is. Every tick either does nothing or starts by moving
  the cursor. So a second tick over the same fetched list does nothing, whatever the first
  one did.
\<close>

theorem cursor_first_and_replay_silent:
  assumes sub: "userSettings t chatId = Some s"
  shows "(\<not> isPaused s \<and> fetched = Inr (newest # older) \<and>
          strMaps t (lastProcessedSignatures s) address \<noteq> Some (signature newest) \<longrightarrow>
            (\<exists>evs. fst (monitoringTick e fetched getTx clock chatId address mst t) =
                     CursorAdvanced address (signature newest) # evs
                  \<and> (\<forall>ev\<in>set evs. \<exists>g. ev = BodyFetched g \<or> ev = SignalEmitted g))
            \<and> strMaps (snd (monitoringTick e fetched getTx clock chatId address mst t))
                 (lastProcessedSignatures s) address = Some (signature newest))
       \<and> (fetched = Inr (newest # older) \<and>
          strMaps t (lastProcessedSignatures s) address = Some (signature newest) \<longrightarrow>
            monitoringTick e fetched getTx clock chatId address mst t = ([], t))
       \<and> (fst (monitoringTick e fetched getTx clock chatId address mst t) = [] \<or>
          (\<exists>g evs. fst (monitoringTick e fetched getTx clock chatId address mst t) =
                     CursorAdvanced address g # evs
                  \<and> (\<forall>ev\<in>set evs. \<exists>g'. ev = BodyFetched g' \<or> ev = SignalEmitted g')))
       \<and> monitoringTick e' fetched getTx' clock' chatId address mst
           (snd (monitoringTick e fetched getTx clock chatId address mst t)) =
           ([], snd (monitoringTick e fetched getTx clock chatId address mst t))"
proof -
  let ?c = "lastProcessedSignatures s"
  have same: "monitoringTick e (Inr (n # os)) getTx clock chatId address mst t = ([], t)"
    if "strMaps t ?c address = Some (signature n)" for n os
    using sub that by (simp add: monitoringTick_def Let_def)
  have new: "(\<exists>evs. monitoringTick e (Inr (n # os)) getTx clock chatId address mst t =
                     (CursorAdvanced address (signature n) # evs,
                      snd (monitoringTick e (Inr (n # os)) getTx clock chatId address mst t))
                  \<and> (\<forall>ev\<in>set evs. \<exists>g. ev = BodyFetched g \<or> ev = SignalEmitted g))
            \<and> strMaps (snd (monitoringTick e (Inr (n # os)) getTx clock chatId address mst t))
                 ?c address = Some (signature n)
            \<and> userSettings (snd (monitoringTick e (Inr (n # os)) getTx clock chatId address mst t))
                = userSettings t"
    if np: "\<not> isPaused s" and nc: "strMaps t ?c address \<noteq> Some (signature n)" for n os
  proof -
    let ?cur = "strMaps t ?c address"
    let ?news = "takeWhile (\<lambda>sg. Some (signature sg) \<noteq> ?cur) (n # os)"
    let ?t1 = "t\<lparr>strMaps := (strMaps t)(?c := (strMaps t ?c)(address \<mapsto> signature n))\<rparr>"
    let ?run = "processNewSignatures e getTx clock chatId address mst (rev ?news) ?t1"
    have hd: "?news = n # takeWhile (\<lambda>sg. Some (signature sg) \<noteq> ?cur) os"
      using nc by auto
    have tick: "monitoringTick e (Inr (n # os)) getTx clock chatId address mst t =
        (CursorAdvanced address (signature n) # fst ?run, snd ?run)"
      using sub np nc by (simp add: monitoringTick_def Let_def split_beta)
    have sub1: "userSettings ?t1 chatId = Some s" using sub by simp
    from processNewSignatures_keeps_cursors[OF sub1, of e getTx clock address mst "rev ?news"]
    have keep: "userSettings (snd ?run) = userSettings t" "strMaps (snd ?run) = strMaps ?t1"
      by simp_all
    have ev: "\<forall>ev\<in>set (fst ?run). \<exists>g. ev = BodyFetched g \<or> ev = SignalEmitted g"
      using processNewSignatures_events by blast
    show ?thesis
      using tick keep ev by simp
  qed
  have first: "\<not> isPaused s \<and> fetched = Inr (newest # older) \<and>
          strMaps t ?c address \<noteq> Some (signature newest) \<longrightarrow>
            (\<exists>evs. fst (monitoringTick e fetched getTx clock chatId address mst t) =
                     CursorAdvanced address (signature newest) # evs
                  \<and> (\<forall>ev\<in>set evs. \<exists>g. ev = BodyFetched g \<or> ev = SignalEmitted g))
            \<and> strMaps (snd (monitoringTick e fetched getTx clock chatId address mst t))
                 ?c address = Some (signature newest)"
  proof (intro impI, elim conjE)
    assume a: "\<not> isPaused s" "fetched = Inr (newest # older)"
      "strMaps t ?c address \<noteq> Some (signature newest)"
    from new[OF a(1) a(3), of older] obtain evs where
      "monitoringTick e (Inr (newest # older)) getTx clock chatId address mst t =
         (CursorAdvanced address (signature newest) # evs,
          snd (monitoringTick e (Inr (newest # older)) getTx clock chatId address mst t))"
      "\<forall>ev\<in>set evs. \<exists>g. ev = BodyFetched g \<or> ev = SignalEmitted g"
      "strMaps (snd (monitoringTick e (Inr (newest # older)) getTx clock chatId address mst t))
                 ?c address = Some (signature newest)"
      by blast
    then show "(\<exists>evs. fst (monitoringTick e fetched getTx clock chatId address mst t) =
                     CursorAdvanced address (signature newest) # evs
                  \<and> (\<forall>ev\<in>set evs. \<exists>g. ev = BodyFetched g \<or> ev = SignalEmitted g))
            \<and> strMaps (snd (monitoringTick e fetched getTx clock chatId address mst t))
                 ?c address = Some (signature newest)"
      using a(2) by (metis fst_conv)
  qed
  have second: "fetched = Inr (newest # older) \<and>
          strMaps t ?c address = Some (signature newest) \<longrightarrow>
            monitoringTick e fetched getTx clock chatId address mst t = ([], t)"
    using same by blast
  have replay: "monitoringTick e' fetched getTx' clock' chatId address mst
           (snd (monitoringTick e fetched getTx clock chatId address mst t)) =
           ([], snd (monitoringTick e fetched getTx clock chatId address mst t))"
  proof (cases "isPaused s")
    case True
    with sub show ?thesis by (simp add: monitoringTick_def)
  next
    case np: False
    show ?thesis
    proof (cases fetched)
      case (Inl err)
      with sub np show ?thesis by (simp add: monitoringTick_def)
    next
      case (Inr sigs)
      show ?thesis
      proof (cases sigs)
        case Nil
        with Inr sub np show ?thesis by (simp add: monitoringTick_def)
      next
        case (Cons n os)
        show ?thesis
        proof (cases "strMaps t ?c address = Some (signature n)")
          case True
          with Inr Cons sub np show ?thesis by (simp add: monitoringTick_def Let_def)
        next
          case False
          let ?t2 = "snd (monitoringTick e (Inr (n # os)) getTx clock chatId address mst t)"
          from new[OF np False, of os] have
            c2: "strMaps ?t2 ?c address = Some (signature n)"
            and u2: "userSettings ?t2 = userSettings t" by blast+
          have "monitoringTick e' (Inr (n # os)) getTx' clock' chatId address mst ?t2 = ([], ?t2)"
            using sub np c2 u2 by (simp add: monitoringTick_def Let_def)
          with Inr Cons show ?thesis by simp
        qed
      qed
    qed
  qed
  have shape: "fst (monitoringTick e fetched getTx clock chatId address mst t) = [] \<or>
          (\<exists>g evs. fst (monitoringTick e fetched getTx clock chatId address mst t) =
                     CursorAdvanced address g # evs
                  \<and> (\<forall>ev\<in>set evs. \<exists>g'. ev = BodyFetched g' \<or> ev = SignalEmitted g'))"
  proof (cases "isPaused s")
    case True
    with sub show ?thesis by (simp add: monitoringTick_def)
  next
    case np: False
    show ?thesis
    proof (cases fetched)
      case (Inl err)
      with sub np show ?thesis by (simp add: monitoringTick_def)
    next
      case (Inr sigs)
      show ?thesis
      proof (cases sigs)
        case Nil
        with Inr sub np show ?thesis by (simp add: monitoringTick_def)
      next
        case (Cons n os)
        show ?thesis
        proof (cases "strMaps t ?c address = Some (signature n)")
          case True
          with Inr Cons sub np show ?thesis by (simp add: monitoringTick_def Let_def)
        next
          case False
          from new[OF np False, of os] obtain evs where
            "monitoringTick e (Inr (n # os)) getTx clock chatId address mst t =
               (CursorAdvanced address (signature n) # evs,
                snd (monitoringTick e (Inr (n # os)) getTx clock chatId address mst t))"
            "\<forall>ev\<in>set evs. \<exists>g. ev = BodyFetched g \<or> ev = SignalEmitted g"
            by blast
          then have "\<exists>g evs. fst (monitoringTick e (Inr (n # os)) getTx clock chatId address mst t) =
                     CursorAdvanced address g # evs
                  \<and> (\<forall>ev\<in>set evs. \<exists>g'. ev = BodyFetched g' \<or> ev = SignalEmitted g')"
            by (metis fst_conv)
          with Inr Cons show ?thesis by simp
        qed
      qed
    qed
  qed
  from first second shape replay show ?thesis by blast
qed

text \<open>The spend of the body of \<open>S1\<close>, 1 SOL less 0.4 SOL in doubles, passes the default threshold.\<close>

lemma spend_above_threshold:
  "\<not> js_lt (js_max0 (js_sub (Num (dbl (dbl 1000000000 / 1000000000)))
                             (Num (dbl (dbl 400000000 / 1000000000))))) (Num (1 / 2))"
  by code_simp

text \<open>
  The theorem at subscriber 7's wallet \<open>W\<close> with cursor \<open>S0\<close> and the fetched list
  \<open>S2, S1\<close>: the cursor moves to \<open>S2\<close> first, \<open>S1\<close> is processed before \<open>S2\<close>, and the
  same list fetched again does nothing.
\<close>

theorem cursor_first_and_replay_silent_witness:
  "strMaps tracking 1 ''W'' = Some ''S0''
   \<and> fst (monitoringTick (\<lambda>_. None) twoNewSigs chainBodies (\<lambda>_. (20000, 20000)) 7 ''W'' 5 tracking) =
       [CursorAdvanced ''W'' ''S2'', BodyFetched ''S1'', SignalEmitted ''S1'', BodyFetched ''S2'']
   \<and> strMaps (snd (monitoringTick (\<lambda>_. None) twoNewSigs chainBodies (\<lambda>_. (20000, 20000)) 7 ''W'' 5
                     tracking)) 1 ''W'' = Some ''S2''
   \<and> monitoringTick (\<lambda>_. None) twoNewSigs chainBodies (\<lambda>_. (20000, 20000)) 7 ''W'' 5
       (snd (monitoringTick (\<lambda>_. None) twoNewSigs chainBodies (\<lambda>_. (20000, 20000)) 7 ''W'' 5
               tracking)) =
       ([], snd (monitoringTick (\<lambda>_. None) twoNewSigs chainBodies (\<lambda>_. (20000, 20000)) 7 ''W'' 5
                   tracking))"
proof -
  let ?s = "\<lparr> solThreshold = 1 / 2, requiredWallets = 3, wallets = 4, isPaused = False,
              lastProcessedSignatures = 1, userWallets = 2, monitoringStartTimes = 3 \<rparr>"
  have sub: "userSettings tracking 7 = Some ?s"
    by (simp add: tracking_def bothSubscribed_def addWallet_def startMonitoringWallet_def
          stopMonitoring_def getUserSettings_def newWalletTracker_def Let_def)
  have cur: "strMaps tracking 1 ''W'' = Some ''S0''"
    by (simp add: tracking_def bothSubscribed_def addWallet_def startMonitoringWallet_def
          stopMonitoring_def getUserSettings_def newWalletTracker_def Let_def)
  have evs: "fst (monitoringTick (\<lambda>_. None) twoNewSigs chainBodies (\<lambda>_. (20000, 20000)) 7 ''W'' 5
                    tracking) =
       [CursorAdvanced ''W'' ''S2'', BodyFetched ''S1'', SignalEmitted ''S1'', BodyFetched ''S2'']"
    by (simp add: monitoringTick_def twoNewSigs_def chainBodies_def tracking_def
          bothSubscribed_def addWallet_def startMonitoringWallet_def stopMonitoring_def
          getUserSettings_def newWalletTracker_def Let_def tooOld_def
          extractTokenInfoFromTx_def netSolSpent_def selectToken_def preBalanceMapOf_def
          isBuy_def enrichedName_def processTransaction_def dbl_of_small_integers
          spend_above_threshold)
  from cursor_first_and_replay_silent[OF sub, where fetched = twoNewSigs
      and newest = "\<lparr> signature = ''S2'', blockTime = Some 7 \<rparr>"
      and older = "[\<lparr> signature = ''S1'', blockTime = Some 6 \<rparr>]" and address = "''W''"
      and e = "\<lambda>_. None" and e' = "\<lambda>_. None" and getTx = chainBodies and getTx' = chainBodies
      and clock = "\<lambda>_. (20000, 20000)" and clock' = "\<lambda>_. (20000, 20000)" and mst = 5]
  show ?thesis
    using cur evs by (simp add: twoNewSigs_def)
qed

text \<open>
  C9, as the code has it. \<open>deleteWallet\<close> cancels the wallet's timer and forgets its
  handle, and removes the wallet's entry from \<open>wallets\<close> and from
  \<open>lastProcessedSignatures\<close>; it leaves \<open>monitoringStartTimes\<close> as it is.
\<close>

theorem deleteWallet_cancels_and_forgets_cursor:
  "monitoringIntervals (deleteWallet chatId address t) (chatId, address) = None
   \<and> (\<forall>handle. monitoringIntervals t (chatId, address) = Some handle \<longrightarrow>
         liveTimers (deleteWallet chatId address t) handle = None)
   \<and> strMaps (deleteWallet chatId address t) (wallets (fst (getUserSettings chatId t))) address
       = None
   \<and> strMaps (deleteWallet chatId address t)
       (lastProcessedSignatures (fst (getUserSettings chatId t))) address = None
   \<and> timeObjs (deleteWallet chatId address t) = timeObjs t"
  by (auto simp: deleteWallet_def getUserSettings_def stopMonitoring_def Let_def
        split: option.splits)

text \<open>
  The theorem at subscriber 7's wallet \<open>W\<close>: its timer 0 is cancelled and its cursor is
  gone.
\<close>

theorem deleteWallet_cancels_and_forgets_cursor_witness:
  "monitoringIntervals tracking (7, ''W'') = Some 0
   \<and> liveTimers tracking 0 = Some (7, ''W'', 5)
   \<and> liveTimers (deleteWallet 7 ''W'' tracking) 0 = None
   \<and> strMaps (deleteWallet 7 ''W'' tracking) 1 ''W'' = None"
proof -
  have before: "monitoringIntervals tracking (7, ''W'') = Some 0"
    "liveTimers tracking 0 = Some (7, ''W'', 5)"
    "lastProcessedSignatures (fst (getUserSettings 7 tracking)) = 1"
    by (simp_all add: tracking_def bothSubscribed_def addWallet_def startMonitoringWallet_def
          stopMonitoring_def getUserSettings_def newWalletTracker_def Let_def)
  from deleteWallet_cancels_and_forgets_cursor[of 7 "''W''" tracking]
  show ?thesis using before by simp
qed

text \<open>
  C9 as stated fails: after subscriber 7 has deleted wallet \<open>W\<close>, the wallet's entry in
  the subscriber's \<open>monitoringStartTimes\<close> is still there.
\<close>

theorem monitoringStartTime_survives_deleteWallet:
  "monitoringStartTimes (fst (getUserSettings 7 tracking)) = 3
   \<and> timeObjs tracking 3 ''W'' = Some 5
   \<and> monitoringStartTimes (fst (getUserSettings 7 (deleteWallet 7 ''W'' tracking))) = 3
   \<and> timeObjs (deleteWallet 7 ''W'' tracking) 3 ''W'' = Some 5"
  by (simp add: deleteWallet_def tracking_def bothSubscribed_def addWallet_def
        startMonitoringWallet_def stopMonitoring_def getUserSettings_def newWalletTracker_def
        Let_def)

section \<open>Properties of the settings objects\<close>

text \<open>
  C4 fails on the code. Subscribers 7 and 8 have settings objects with different
  \<open>wallets\<close> maps and the same \<open>lastProcessedSignatures\<close>, \<open>monitoringStartTimes\<close> and
  \<open>userWallets\<close> objects. Before subscriber 7 acts, subscriber 8's settings show no cursor,
  no start time and no personal wallet; after subscriber 7 has added wallet \<open>W\<close> and created
  a personal wallet, subscriber 8's settings show \<open>W\<close>'s cursor and start time and
  subscriber 7's private key, and when subscriber 8 deletes \<open>W\<close>, which it never tracked,
  subscriber 7's cursor for \<open>W\<close> is gone.
\<close>

theorem settings_objects_shared_between_subscribers:
  "wallets (fst (getUserSettings 7 tracking)) \<noteq> wallets (fst (getUserSettings 8 tracking))
   \<and> lastProcessedSignatures (fst (getUserSettings 7 tracking)) =
       lastProcessedSignatures (fst (getUserSettings 8 tracking))
   \<and> monitoringStartTimes (fst (getUserSettings 7 tracking)) =
       monitoringStartTimes (fst (getUserSettings 8 tracking))
   \<and> userWallets (fst (getUserSettings 7 tracking)) =
       userWallets (fst (getUserSettings 8 tracking))
   \<and> strMaps bothSubscribed (lastProcessedSignatures (fst (getUserSettings 8 bothSubscribed)))
       ''W'' = None
   \<and> timeObjs bothSubscribed (monitoringStartTimes (fst (getUserSettings 8 bothSubscribed)))
       ''W'' = None
   \<and> arrays bothSubscribed (userWallets (fst (getUserSettings 8 bothSubscribed))) = []
   \<and> strMaps tracking (wallets (fst (getUserSettings 8 tracking))) ''W'' = None
   \<and> strMaps tracking (lastProcessedSignatures (fst (getUserSettings 8 tracking))) ''W'' =
       Some ''S0''
   \<and> timeObjs tracking (monitoringStartTimes (fst (getUserSettings 8 tracking))) ''W'' = Some 5
   \<and> arrays withPersonalWallet (userWallets (fst (getUserSettings 8 withPersonalWallet))) =
       [\<lparr> uw_address = ''PUB'', uw_privateKey = ''SECRET'', uw_label = ''Wallet 1'',
          uw_created = 9000 \<rparr>]
   \<and> strMaps (deleteWallet 8 ''W'' tracking)
       (lastProcessedSignatures (fst (getUserSettings 7 (deleteWallet 8 ''W'' tracking)))) ''W''
       = None
   \<and> strMaps (deleteWallet 8 ''W'' tracking)
       (wallets (fst (getUserSettings 7 (deleteWallet 8 ''W'' tracking)))) ''W'' = Some ''whale''"
  by (simp add: withPersonalWallet_def handleCreateWallet_def deleteWallet_def tracking_def
        bothSubscribed_def addWallet_def startMonitoringWallet_def stopMonitoring_def
        getUserSettings_def newWalletTracker_def Let_def)

section \<open>Properties of the webhook\<close>

text \<open>
  C10 fails on the code. Whatever the request holds and whatever the state is, the handler
  answers 500 and changes nothing: the call of \<open>this.handleTransaction\<close> throws before
  anything reaches the classifier.
\<close>

theorem webhook_always_answers_500:
  "webhookPost body t = (500, t)
   \<and> webhookPost webhookRequest tracking = (500, tracking)"
  by (simp add: webhookPost_def handleTransaction_def)

end
